theory Spec2Isabelle
  imports Main "HOL-Library.Word"
begin

section \<open>Common ground of the four Graph implementations\<close>

text \<open>
  The repository holds four versions of the class \<open>Graph\<close>:
  \<^verbatim>\<open>hw0/Graph-1703.hpp\<close>, \<^verbatim>\<open>hw0/Graph-20558.hpp\<close>, \<^verbatim>\<open>hw0/Graph-20862.hpp\<close> (an
  explicit edge list each) and \<^verbatim>\<open>hw1/Graph-26021.hpp\<close> (adjacency vectors and
  iterators). Every definition below carries the number of the file it is taken from.

  \<^item> \<open>size_type\<close> is \<^verbatim>\<open>unsigned\<close>: a 32-bit word. A \<^verbatim>\<open>std::vector\<close> is a list, its
    \<^verbatim>\<open>size()\<close> is the length of the list, and a conversion of that length to
    \<open>size_type\<close> is \<open>of_nat\<close> (it truncates modulo \<open>2 ^ 32\<close>).
  \<^item> A \<^verbatim>\<open>Graph*\<close> is the address of a graph object; the member functions of
    \<open>Graph\<close> take \<open>this\<close> and the state of the object, and return the new state.
    A handle method that follows its graph pointer takes the heap, a map from
    addresses to graph states.
  \<^item> Behaviour outside a function's contract is an error value: a failed
    \<^verbatim>\<open>assert\<close>, a vector subscript outside the storage, a read of a member that the
    empty default constructor left uninitialised, a pointer to no live graph, and a
    counting loop that never ends.
\<close>

type_synonym size_type = "32 word"
type_synonym graph_ptr = nat

datatype error =
    Assertion_failed
  | Out_of_range
  | Uninitialised_read
  | Invalid_pointer
  | Diverges

definition bindE :: "error + 'a \<Rightarrow> ('a \<Rightarrow> error + 'b) \<Rightarrow> error + 'b" where
  "bindE m f = (case m of Inl e \<Rightarrow> Inl e | Inr x \<Rightarrow> f x)"

text \<open>The short-circuit operators \<^verbatim>\<open>&&\<close> and \<^verbatim>\<open>||\<close>: the right operand is only
  evaluated (and can only fail) when the left one does not decide the result.\<close>

definition andE :: "error + bool \<Rightarrow> error + bool \<Rightarrow> error + bool" where
  "andE l r = bindE l (\<lambda>x. if x then r else Inr False)"

definition orE :: "error + bool \<Rightarrow> error + bool \<Rightarrow> error + bool" where
  "orE l r = bindE l (\<lambda>x. if x then Inr True else r)"

text \<open>A vector subscript \<^verbatim>\<open>v[i]\<close> with an \<^verbatim>\<open>unsigned\<close> index.\<close>

definition subscript :: "'a list \<Rightarrow> size_type \<Rightarrow> error + 'a" where
  "subscript v i = (if unat i < length v then Inr (v ! unat i) else Inl Out_of_range)"


section \<open>hw1/Graph-26021.hpp: adjacency vectors\<close>

datatype node_26021 =
    Node_default_26021
  | Node_26021 graph_ptr size_type

datatype edge_26021 =
    Edge_default_26021
  | Edge_26021 graph_ptr size_type size_type

record ('p, 'v) internal_node_26021 =
  m_node_point_26021 :: 'p
  m_node_value_26021 :: 'v

record ('p, 'v) graph_26021 =
  m_graph_nodes_26021 :: "('p, 'v) internal_node_26021 list"
  m_adjacency_26021 :: "size_type list list"

definition Graph_26021 :: "('p, 'v) graph_26021" where
  "Graph_26021 = \<lparr>m_graph_nodes_26021 = [], m_adjacency_26021 = []\<rparr>"

definition index_26021 :: "node_26021 \<Rightarrow> error + size_type" where
  "index_26021 n =
     (case n of Node_default_26021 \<Rightarrow> Inl Uninitialised_read | Node_26021 p i \<Rightarrow> Inr i)"

definition m_graph_ptr_26021 :: "node_26021 \<Rightarrow> error + graph_ptr" where
  "m_graph_ptr_26021 n =
     (case n of Node_default_26021 \<Rightarrow> Inl Uninitialised_read | Node_26021 p i \<Rightarrow> Inr p)"

definition size_26021 :: "('p, 'v) graph_26021 \<Rightarrow> size_type" where
  "size_26021 g = of_nat (length (m_graph_nodes_26021 g))"

definition num_nodes_26021 :: "('p, 'v) graph_26021 \<Rightarrow> size_type" where
  "num_nodes_26021 g = size_26021 g"

definition add_node_26021 ::
  "graph_ptr \<Rightarrow> ('p, 'v) graph_26021 \<Rightarrow> 'p \<Rightarrow> 'v \<Rightarrow> ('p, 'v) graph_26021 \<times> node_26021" where
  "add_node_26021 this g position node_value =
     (let n = \<lparr>m_node_point_26021 = position, m_node_value_26021 = node_value\<rparr>;
          g1 = g\<lparr>m_graph_nodes_26021 := m_graph_nodes_26021 g @ [n]\<rparr>;
          tmp = [];
          g2 = g1\<lparr>m_adjacency_26021 := m_adjacency_26021 g1 @ [tmp]\<rparr>
      in (g2, Node_26021 this (size_26021 g2 - 1)))"

definition has_node_26021 ::
  "graph_ptr \<Rightarrow> ('p, 'v) graph_26021 \<Rightarrow> node_26021 \<Rightarrow> error + bool" where
  "has_node_26021 this g n =
     (case n of
        Node_default_26021 \<Rightarrow> Inl Uninitialised_read
      | Node_26021 p i \<Rightarrow> if i < size_26021 g then Inr (p = this) else Inl Assertion_failed)"

definition node_26021 ::
  "graph_ptr \<Rightarrow> ('p, 'v) graph_26021 \<Rightarrow> size_type \<Rightarrow> error + node_26021" where
  "node_26021 this g i = (if i < size_26021 g then Inr (Node_26021 this i) else Inl Assertion_failed)"

text \<open>\<^verbatim>\<open>Node::operator==\<close> calls \<^verbatim>\<open>m_graph_ptr->has_node(n)\<close>: it follows the pointer of
  its left operand.\<close>

definition node_eq_26021 ::
  "(graph_ptr \<rightharpoonup> ('p, 'v) graph_26021) \<Rightarrow> node_26021 \<Rightarrow> node_26021 \<Rightarrow> error + bool" where
  "node_eq_26021 h x n =
     (case x of
        Node_default_26021 \<Rightarrow> Inl Uninitialised_read
      | Node_26021 p i \<Rightarrow>
          (case h p of
             None \<Rightarrow> Inl Invalid_pointer
           | Some g \<Rightarrow> andE (has_node_26021 p g n) (bindE (index_26021 n) (\<lambda>j. Inr (i = j)))))"

definition node1_26021 :: "edge_26021 \<Rightarrow> error + node_26021" where
  "node1_26021 e =
     (case e of Edge_default_26021 \<Rightarrow> Inl Uninitialised_read
      | Edge_26021 p i j \<Rightarrow> Inr (Node_26021 p i))"

definition node2_26021 :: "edge_26021 \<Rightarrow> error + node_26021" where
  "node2_26021 e =
     (case e of Edge_default_26021 \<Rightarrow> Inl Uninitialised_read
      | Edge_26021 p i j \<Rightarrow> Inr (Node_26021 p j))"

definition node_eqE_26021 ::
  "(graph_ptr \<rightharpoonup> ('p, 'v) graph_26021) \<Rightarrow> error + node_26021 \<Rightarrow> error + node_26021
     \<Rightarrow> error + bool" where
  "node_eqE_26021 h l r = bindE l (\<lambda>x. bindE r (\<lambda>n. node_eq_26021 h x n))"

definition edge_eq_26021 ::
  "(graph_ptr \<rightharpoonup> ('p, 'v) graph_26021) \<Rightarrow> edge_26021 \<Rightarrow> edge_26021 \<Rightarrow> error + bool" where
  "edge_eq_26021 h x e =
     orE (andE (node_eqE_26021 h (node1_26021 x) (node1_26021 e))
               (node_eqE_26021 h (node2_26021 x) (node2_26021 e)))
         (andE (node_eqE_26021 h (node1_26021 x) (node2_26021 e))
               (node_eqE_26021 h (node2_26021 x) (node1_26021 e)))"

text \<open>The loop of \<^verbatim>\<open>num_edges\<close>: the counter \<^verbatim>\<open>i\<close> and the sum \<^verbatim>\<open>tmp\<close> are
  \<^verbatim>\<open>unsigned\<close>, the bound is a \<^verbatim>\<open>size_t\<close>.\<close>

partial_function (option) num_edges_loop_26021 ::
  "size_type list list \<Rightarrow> size_type \<Rightarrow> size_type \<Rightarrow> size_type option" where
  "num_edges_loop_26021 adj i tmp =
     (if unat i < length adj
      then num_edges_loop_26021 adj (i + 1) (tmp + of_nat (length (adj ! unat i)))
      else Some tmp)"

definition num_edges_26021 :: "('p, 'v) graph_26021 \<Rightarrow> error + size_type" where
  "num_edges_26021 g =
     (case num_edges_loop_26021 (m_adjacency_26021 g) 0 0 of
        None \<Rightarrow> Inl Diverges
      | Some tmp \<Rightarrow> Inr (tmp div 2))"

text \<open>The search that \<^verbatim>\<open>has_edge\<close> and \<^verbatim>\<open>add_edge\<close> both contain:
  \<^verbatim>\<open>tmp = m_adjacency[a.index()]; index = b.index();\<close>
  \<^verbatim>\<open>for (unsigned i=0; i<tmp.size(); i++) if (tmp[i]==index) return ...\<close>.\<close>

partial_function (option) find_loop_26021 ::
  "size_type list \<Rightarrow> size_type \<Rightarrow> size_type \<Rightarrow> bool option" where
  "find_loop_26021 tmp index i =
     (if unat i < length tmp
      then (if tmp ! unat i = index then Some True else find_loop_26021 tmp index (i + 1))
      else Some False)"

definition search_26021 ::
  "('p, 'v) graph_26021 \<Rightarrow> node_26021 \<Rightarrow> node_26021 \<Rightarrow> error + bool" where
  "search_26021 g a b =
     bindE (index_26021 a) (\<lambda>ia.
     bindE (subscript (m_adjacency_26021 g) ia) (\<lambda>tmp.
     bindE (index_26021 b) (\<lambda>index.
       case find_loop_26021 tmp index 0 of
         None \<Rightarrow> Inl Diverges
       | Some found \<Rightarrow> Inr found)))"

definition has_edge_26021 ::
  "graph_ptr \<Rightarrow> ('p, 'v) graph_26021 \<Rightarrow> node_26021 \<Rightarrow> node_26021 \<Rightarrow> error + bool" where
  "has_edge_26021 this g a b =
     bindE (orE (bindE (m_graph_ptr_26021 a) (\<lambda>p. Inr (p \<noteq> this)))
                (bindE (m_graph_ptr_26021 b) (\<lambda>p. Inr (p \<noteq> this))))
       (\<lambda>foreign. if foreign then Inr False else search_26021 g a b)"

text \<open>The two \<^verbatim>\<open>push_back\<close> calls that end \<^verbatim>\<open>add_edge\<close>, in the order of the source:
  first \<^verbatim>\<open>m_adjacency[b.index()]\<close>, then \<^verbatim>\<open>m_adjacency[a.index()]\<close>.\<close>

definition push_both_26021 ::
  "graph_ptr \<Rightarrow> ('p, 'v) graph_26021 \<Rightarrow> size_type \<Rightarrow> size_type
     \<Rightarrow> error + ('p, 'v) graph_26021 \<times> edge_26021" where
  "push_both_26021 this g ia ib =
     bindE (subscript (m_adjacency_26021 g) ib) (\<lambda>vb.
       let adj1 = (m_adjacency_26021 g)[unat ib := vb @ [ia]] in
       bindE (subscript adj1 ia) (\<lambda>va.
         let adj2 = adj1[unat ia := va @ [ib]] in
         Inr (g\<lparr>m_adjacency_26021 := adj2\<rparr>, Edge_26021 this ia ib)))"

definition add_edge_26021 ::
  "graph_ptr \<Rightarrow> ('p, 'v) graph_26021 \<Rightarrow> node_26021 \<Rightarrow> node_26021
     \<Rightarrow> error + ('p, 'v) graph_26021 \<times> edge_26021" where
  "add_edge_26021 this g a b =
     bindE (andE (bindE (m_graph_ptr_26021 a) (\<lambda>p. Inr (p = this)))
                 (bindE (m_graph_ptr_26021 b) (\<lambda>p. Inr (p = this))))
       (\<lambda>own.
     bindE (if own then search_26021 g a b else Inr False)
       (\<lambda>found.
     bindE (index_26021 a) (\<lambda>ia.
     bindE (index_26021 b) (\<lambda>ib.
       if found then Inr (g, Edge_26021 this ia ib)
       else push_both_26021 this g ia ib))))"

definition clear_26021 :: "('p, 'v) graph_26021 \<Rightarrow> ('p, 'v) graph_26021" where
  "clear_26021 g = g\<lparr>m_graph_nodes_26021 := [], m_adjacency_26021 := []\<rparr>"

subsection \<open>EdgeIterator\<close>

datatype edge_iterator_26021 =
    EdgeIterator_default_26021
  | EdgeIterator_26021 graph_ptr size_type size_type

definition edge_iterator_deref_26021 ::
  "(graph_ptr \<rightharpoonup> ('p, 'v) graph_26021) \<Rightarrow> edge_iterator_26021 \<Rightarrow> error + edge_26021" where
  "edge_iterator_deref_26021 h it =
     (case it of
        EdgeIterator_default_26021 \<Rightarrow> Inl Uninitialised_read
      | EdgeIterator_26021 p n1 ei \<Rightarrow>
          (case h p of
             None \<Rightarrow> Inl Invalid_pointer
           | Some g \<Rightarrow>
               bindE (subscript (m_adjacency_26021 g) n1) (\<lambda>v.
               bindE (subscript v ei) (\<lambda>n2. Inr (Edge_26021 p n1 n2)))))"

text \<open>The nested \<^verbatim>\<open>while\<close> statements of \<^verbatim>\<open>EdgeIterator::operator++\<close>, entered after
  \<^verbatim>\<open>++m_edge_index\<close>. One recursive call is one pass through a loop test: the inner
  loop steps \<^verbatim>\<open>m_edge_index\<close>, its exit steps \<^verbatim>\<open>m_node1_index\<close> and resets
  \<^verbatim>\<open>m_edge_index\<close>. Both counters are \<^verbatim>\<open>unsigned\<close>.\<close>

partial_function (option) edge_iterator_loop_26021 ::
  "size_type list list \<Rightarrow> size_type \<Rightarrow> size_type \<Rightarrow> (size_type \<times> size_type) option" where
  "edge_iterator_loop_26021 adj n1 ei =
     (if unat n1 < length adj
      then (if unat ei < length (adj ! unat n1)
            then (if n1 < adj ! unat n1 ! unat ei then Some (n1, ei)
                  else edge_iterator_loop_26021 adj n1 (ei + 1))
            else edge_iterator_loop_26021 adj (n1 + 1) 0)
      else Some (n1, ei))"

definition edge_iterator_inc_26021 ::
  "(graph_ptr \<rightharpoonup> ('p, 'v) graph_26021) \<Rightarrow> edge_iterator_26021 \<Rightarrow> error + edge_iterator_26021" where
  "edge_iterator_inc_26021 h it =
     (case it of
        EdgeIterator_default_26021 \<Rightarrow> Inl Uninitialised_read
      | EdgeIterator_26021 p n1 ei \<Rightarrow>
          (case h p of
             None \<Rightarrow> Inl Invalid_pointer
           | Some g \<Rightarrow>
               (case edge_iterator_loop_26021 (m_adjacency_26021 g) n1 (ei + 1) of
                  None \<Rightarrow> Inl Diverges
                | Some (n1', ei') \<Rightarrow> Inr (EdgeIterator_26021 p n1' ei'))))"

definition edge_iterator_eq_26021 :: "edge_iterator_26021 \<Rightarrow> edge_iterator_26021 \<Rightarrow> error + bool" where
  "edge_iterator_eq_26021 x edge_it =
     (case (x, edge_it) of
        (EdgeIterator_26021 p n1 ei, EdgeIterator_26021 q m1 fi) \<Rightarrow> Inr (p = q \<and> n1 = m1 \<and> ei = fi)
      | _ \<Rightarrow> Inl Uninitialised_read)"

definition edge_begin_26021 :: "graph_ptr \<Rightarrow> ('p, 'v) graph_26021 \<Rightarrow> edge_iterator_26021" where
  "edge_begin_26021 this g = EdgeIterator_26021 this 0 0"

definition edge_end_26021 :: "graph_ptr \<Rightarrow> ('p, 'v) graph_26021 \<Rightarrow> edge_iterator_26021" where
  "edge_end_26021 this g = EdgeIterator_26021 this (of_nat (length (m_adjacency_26021 g))) 0"

text \<open>\<^verbatim>\<open>edge(i)\<close> is \<^verbatim>\<open>*(std::next(edge_begin(), i))\<close> after \<^verbatim>\<open>assert(i<num_edges())\<close>;
  \<^verbatim>\<open>std::next\<close> on this input iterator applies \<^verbatim>\<open>operator++\<close> \<open>i\<close> times.\<close>

fun next_26021 ::
  "(graph_ptr \<rightharpoonup> ('p, 'v) graph_26021) \<Rightarrow> edge_iterator_26021 \<Rightarrow> nat \<Rightarrow> error + edge_iterator_26021" where
  "next_26021 h it 0 = Inr it"
| "next_26021 h it (Suc n) = bindE (edge_iterator_inc_26021 h it) (\<lambda>it'. next_26021 h it' n)"

definition edge_26021 ::
  "(graph_ptr \<rightharpoonup> ('p, 'v) graph_26021) \<Rightarrow> graph_ptr \<Rightarrow> size_type \<Rightarrow> error + edge_26021" where
  "edge_26021 h this i =
     (case h this of
        None \<Rightarrow> Inl Invalid_pointer
      | Some g \<Rightarrow>
          bindE (num_edges_26021 g) (\<lambda>n.
            if i < n
            then bindE (next_26021 h (edge_begin_26021 this g) (unat i)) (edge_iterator_deref_26021 h)
            else Inl Assertion_failed))"

text \<open>Enumerating a range of the iterator, as a caller does:
  \<^verbatim>\<open>for (auto it = it_begin; it != it_end; ++it) visit(*it);\<close>
  The result is the list of the edges visited; an error of \<^verbatim>\<open>*it\<close> or \<^verbatim>\<open>++it\<close>
  ends the enumeration.\<close>

partial_function (option) edge_range_loop_26021 ::
  "(graph_ptr \<rightharpoonup> ('p, 'v) graph_26021) \<Rightarrow> edge_iterator_26021 \<Rightarrow> edge_iterator_26021
     \<Rightarrow> edge_26021 list \<Rightarrow> (error + edge_26021 list) option" where
  "edge_range_loop_26021 h it it_end visited =
     (case edge_iterator_eq_26021 it it_end of
        Inl err \<Rightarrow> Some (Inl err)
      | Inr stop \<Rightarrow>
          if stop then Some (Inr visited)
          else (case edge_iterator_deref_26021 h it of
                  Inl err \<Rightarrow> Some (Inl err)
                | Inr e \<Rightarrow>
                    (case edge_iterator_inc_26021 h it of
                       Inl err \<Rightarrow> Some (Inl err)
                     | Inr it' \<Rightarrow> edge_range_loop_26021 h it' it_end (visited @ [e]))))"

definition edge_range_26021 ::
  "(graph_ptr \<rightharpoonup> ('p, 'v) graph_26021) \<Rightarrow> edge_iterator_26021 \<Rightarrow> edge_iterator_26021
     \<Rightarrow> error + edge_26021 list" where
  "edge_range_26021 h it_begin it_end =
     (case edge_range_loop_26021 h it_begin it_end [] of
        None \<Rightarrow> Inl Diverges
      | Some r \<Rightarrow> r)"

subsection \<open>Sequences of calls on one graph\<close>

datatype ('p, 'v) call_26021 =
    Add_node_26021 'p 'v
  | Add_edge_26021 node_26021 node_26021
  | Clear_26021

fun run_26021 ::
  "graph_ptr \<Rightarrow> ('p, 'v) call_26021 list \<Rightarrow> ('p, 'v) graph_26021 \<Rightarrow> error + ('p, 'v) graph_26021" where
  "run_26021 this [] g = Inr g"
| "run_26021 this (Add_node_26021 position v # cs) g =
     run_26021 this cs (fst (add_node_26021 this g position v))"
| "run_26021 this (Add_edge_26021 a b # cs) g =
     bindE (add_edge_26021 this g a b) (\<lambda>r. run_26021 this cs (fst r))"
| "run_26021 this (Clear_26021 # cs) g = run_26021 this cs (clear_26021 g)"


subsection \<open>Representation invariant\<close>

text \<open>What every state reached by calls that return satisfies: one adjacency entry per
  node; every neighbour recorded is the identifier of an entry; and the neighbour
  relation is symmetric.\<close>

definition in_range_26021 :: "('p, 'v) graph_26021 \<Rightarrow> bool" where
  "in_range_26021 g \<longleftrightarrow>
     (\<forall>v \<in> set (m_adjacency_26021 g). \<forall>j \<in> set v. unat j < length (m_adjacency_26021 g))"

definition symmetric_26021 :: "('p, 'v) graph_26021 \<Rightarrow> bool" where
  "symmetric_26021 g \<longleftrightarrow>
     (\<forall>i j. unat i < length (m_adjacency_26021 g) \<and> unat j < length (m_adjacency_26021 g) \<longrightarrow>
        (j \<in> set (m_adjacency_26021 g ! unat i) \<longleftrightarrow> i \<in> set (m_adjacency_26021 g ! unat j)))"

definition invariant_26021 :: "('p, 'v) graph_26021 \<Rightarrow> bool" where
  "invariant_26021 g \<longleftrightarrow>
     length (m_adjacency_26021 g) = length (m_graph_nodes_26021 g) \<and>
     in_range_26021 g \<and> symmetric_26021 g"


section \<open>hw0/Graph-1703.hpp: edge list of node handles\<close>

datatype node_1703 =
    Node_default_1703
  | Node_1703 graph_ptr size_type

datatype edge_1703 =
    Edge_default_1703
  | Edge_1703 graph_ptr size_type size_type size_type

record 'p internal_nodes_1703 =
  position_1703 :: 'p
  uid_1703 :: size_type

record internal_edges_1703 =
  node_a_1703 :: node_1703
  node_b_1703 :: node_1703
  edgeid_1703 :: size_type

record 'p graph_1703 =
  nodes_1703 :: "'p internal_nodes_1703 list"
  edges_1703 :: "internal_edges_1703 list"

definition Graph_1703 :: "'p graph_1703" where
  "Graph_1703 = \<lparr>nodes_1703 = [], edges_1703 = []\<rparr>"

definition g_1703 :: "node_1703 \<Rightarrow> error + graph_ptr" where
  "g_1703 n = (case n of Node_default_1703 \<Rightarrow> Inl Uninitialised_read | Node_1703 p u \<Rightarrow> Inr p)"

text \<open>\<^verbatim>\<open>Node::index()\<close> reads \<^verbatim>\<open>g_->nodes_[uid_].uid\<close>.\<close>

definition index_1703 :: "(graph_ptr \<rightharpoonup> 'p graph_1703) \<Rightarrow> node_1703 \<Rightarrow> error + size_type" where
  "index_1703 h n =
     (case n of
        Node_default_1703 \<Rightarrow> Inl Uninitialised_read
      | Node_1703 p u \<Rightarrow>
          (case h p of
             None \<Rightarrow> Inl Invalid_pointer
           | Some g \<Rightarrow> bindE (subscript (nodes_1703 g) u) (\<lambda>r. Inr (uid_1703 r))))"

definition node_eq_1703 :: "node_1703 \<Rightarrow> node_1703 \<Rightarrow> error + bool" where
  "node_eq_1703 x n =
     (case (x, n) of
        (Node_1703 p u, Node_1703 q v) \<Rightarrow> Inr (q = p \<and> v = u)
      | _ \<Rightarrow> Inl Uninitialised_read)"

definition size_1703 :: "'p graph_1703 \<Rightarrow> size_type" where
  "size_1703 g = of_nat (length (nodes_1703 g))"

definition num_nodes_1703 :: "'p graph_1703 \<Rightarrow> size_type" where
  "num_nodes_1703 g = size_1703 g"

definition add_node_1703 :: "graph_ptr \<Rightarrow> 'p graph_1703 \<Rightarrow> 'p \<Rightarrow> 'p graph_1703 \<times> node_1703" where
  "add_node_1703 this g position =
     (let node_addition = \<lparr>position_1703 = position, uid_1703 = size_1703 g\<rparr>;
          g' = g\<lparr>nodes_1703 := nodes_1703 g @ [node_addition]\<rparr>
      in (g', Node_1703 this (uid_1703 node_addition)))"

definition has_node_1703 :: "graph_ptr \<Rightarrow> 'p graph_1703 \<Rightarrow> node_1703 \<Rightarrow> error + bool" where
  "has_node_1703 this g n = bindE (g_1703 n) (\<lambda>p. Inr (p = this))"

definition node_1703 :: "graph_ptr \<Rightarrow> 'p graph_1703 \<Rightarrow> size_type \<Rightarrow> node_1703" where
  "node_1703 this g i = (if i \<ge> size_1703 g then Node_default_1703 else Node_1703 this i)"

definition node1_1703 :: "(graph_ptr \<rightharpoonup> 'p graph_1703) \<Rightarrow> edge_1703 \<Rightarrow> error + node_1703" where
  "node1_1703 h e =
     (case e of
        Edge_default_1703 \<Rightarrow> Inl Uninitialised_read
      | Edge_1703 p i a b \<Rightarrow>
          (case h p of
             None \<Rightarrow> Inl Invalid_pointer
           | Some g \<Rightarrow> bindE (subscript (edges_1703 g) i) (\<lambda>r. Inr (node_a_1703 r))))"

definition node2_1703 :: "(graph_ptr \<rightharpoonup> 'p graph_1703) \<Rightarrow> edge_1703 \<Rightarrow> error + node_1703" where
  "node2_1703 h e =
     (case e of
        Edge_default_1703 \<Rightarrow> Inl Uninitialised_read
      | Edge_1703 p i a b \<Rightarrow>
          (case h p of
             None \<Rightarrow> Inl Invalid_pointer
           | Some g \<Rightarrow> bindE (subscript (edges_1703 g) i) (\<lambda>r. Inr (node_b_1703 r))))"

definition edge_eq_1703 :: "edge_1703 \<Rightarrow> edge_1703 \<Rightarrow> error + bool" where
  "edge_eq_1703 x e =
     (case (x, e) of
        (Edge_1703 p i a b, Edge_1703 q j c d) \<Rightarrow> Inr (j = i)
      | _ \<Rightarrow> Inl Uninitialised_read)"

definition num_edges_1703 :: "'p graph_1703 \<Rightarrow> size_type" where
  "num_edges_1703 g = of_nat (length (edges_1703 g))"

definition edge_1703 ::
  "(graph_ptr \<rightharpoonup> 'p graph_1703) \<Rightarrow> graph_ptr \<Rightarrow> size_type \<Rightarrow> error + edge_1703" where
  "edge_1703 h this i =
     (case h this of
        None \<Rightarrow> Inl Invalid_pointer
      | Some g \<Rightarrow>
          if unat i \<ge> length (edges_1703 g) then Inr Edge_default_1703
          else bindE (index_1703 h (node_a_1703 (edges_1703 g ! unat i))) (\<lambda>ia.
               bindE (index_1703 h (node_b_1703 (edges_1703 g ! unat i))) (\<lambda>ib.
                 Inr (Edge_1703 this i ia ib))))"

text \<open>The test that \<^verbatim>\<open>has_edge\<close> and \<^verbatim>\<open>add_edge\<close> make in their \<^verbatim>\<open>for\<close> loop:
  \<^verbatim>\<open>(edges_[i].node_a == a && edges_[i].node_b == b) ||\<close>
  \<^verbatim>\<open>(edges_[i].node_b == a && edges_[i].node_a == b)\<close>.\<close>

definition connects_1703 :: "internal_edges_1703 \<Rightarrow> node_1703 \<Rightarrow> node_1703 \<Rightarrow> error + bool" where
  "connects_1703 r a b =
     orE (andE (node_eq_1703 (node_a_1703 r) a) (node_eq_1703 (node_b_1703 r) b))
         (andE (node_eq_1703 (node_b_1703 r) a) (node_eq_1703 (node_a_1703 r) b))"

text \<open>\<^verbatim>\<open>for (unsigned i=0; i < edges_.size(); i++)\<close>: the loop ends with the first
  position whose edge passes the test, or with none.\<close>

partial_function (option) find_edge_loop_1703 ::
  "internal_edges_1703 list \<Rightarrow> node_1703 \<Rightarrow> node_1703 \<Rightarrow> size_type
     \<Rightarrow> (error + size_type option) option" where
  "find_edge_loop_1703 es a b i =
     (if unat i < length es
      then (case connects_1703 (es ! unat i) a b of
              Inl err \<Rightarrow> Some (Inl err)
            | Inr hit \<Rightarrow> if hit then Some (Inr (Some i)) else find_edge_loop_1703 es a b (i + 1))
      else Some (Inr None))"

definition find_edge_1703 ::
  "'p graph_1703 \<Rightarrow> node_1703 \<Rightarrow> node_1703 \<Rightarrow> error + size_type option" where
  "find_edge_1703 g a b =
     (case find_edge_loop_1703 (edges_1703 g) a b 0 of
        None \<Rightarrow> Inl Diverges
      | Some r \<Rightarrow> r)"

definition has_edge_1703 ::
  "graph_ptr \<Rightarrow> 'p graph_1703 \<Rightarrow> node_1703 \<Rightarrow> node_1703 \<Rightarrow> error + bool" where
  "has_edge_1703 this g a b =
     bindE (orE (bindE (g_1703 a) (\<lambda>p. Inr (this \<noteq> p)))
                (bindE (g_1703 b) (\<lambda>p. Inr (this \<noteq> p))))
       (\<lambda>foreign.
          if foreign then Inr False
          else bindE (find_edge_1703 g a b) (\<lambda>r. Inr (r \<noteq> None)))"

definition add_edge_1703 ::
  "(graph_ptr \<rightharpoonup> 'p graph_1703) \<Rightarrow> graph_ptr \<Rightarrow> node_1703 \<Rightarrow> node_1703
     \<Rightarrow> error + (graph_ptr \<rightharpoonup> 'p graph_1703) \<times> edge_1703" where
  "add_edge_1703 h this a b =
     (case h this of
        None \<Rightarrow> Inl Invalid_pointer
      | Some g \<Rightarrow>
          bindE (node_eq_1703 a b) (\<lambda>same.
            if same then Inr (h, Edge_default_1703)
            else bindE (has_edge_1703 this g a b) (\<lambda>present.
              if present
              then bindE (find_edge_1703 g a b) (\<lambda>r.
                     case r of
                       Some i \<Rightarrow>
                         bindE (index_1703 h a) (\<lambda>ia.
                         bindE (index_1703 h b) (\<lambda>ib. Inr (h, Edge_1703 this i ia ib)))
                     | None \<Rightarrow> Inr (h, Edge_default_1703))
              else
                (let edge_addition =
                       \<lparr>node_a_1703 = a, node_b_1703 = b, edgeid_1703 = size_1703 g\<rparr>;
                     h' = h(this \<mapsto> g\<lparr>edges_1703 := edges_1703 g @ [edge_addition]\<rparr>)
                 in bindE (index_1703 h' (node_a_1703 edge_addition)) (\<lambda>ia.
                    bindE (index_1703 h' (node_b_1703 edge_addition)) (\<lambda>ib.
                      Inr (h', Edge_1703 this (edgeid_1703 edge_addition) ia ib)))))))"

definition clear_1703 :: "'p graph_1703 \<Rightarrow> 'p graph_1703" where
  "clear_1703 g = g\<lparr>edges_1703 := [], nodes_1703 := []\<rparr>"


section \<open>hw0/Graph-20862.hpp: edge list of index pairs\<close>

text \<open>Here the default constructors initialise their members:
  \<^verbatim>\<open>id = size_type(-1); graph = nullptr\<close>. The graph pointer of a handle is an
  option, \<open>None\<close> for \<^verbatim>\<open>nullptr\<close>.\<close>

datatype node_20862 = Node_20862 size_type "graph_ptr option"

datatype edge_20862 = Edge_20862 size_type "graph_ptr option"

record 'p graph_20862 =
  Points_20862 :: "'p list"
  Edges_20862 :: "(size_type \<times> size_type) list"

definition Graph_20862 :: "'p graph_20862" where
  "Graph_20862 = \<lparr>Points_20862 = [], Edges_20862 = []\<rparr>"

definition Node_default_20862 :: node_20862 where
  "Node_default_20862 = Node_20862 (- 1) None"

definition Edge_default_20862 :: edge_20862 where
  "Edge_default_20862 = Edge_20862 (- 1) None"

fun index_20862 :: "node_20862 \<Rightarrow> size_type" where
  "index_20862 (Node_20862 i gp) = i"

fun node_graph_20862 :: "node_20862 \<Rightarrow> graph_ptr option" where
  "node_graph_20862 (Node_20862 i gp) = gp"

definition node_eq_20862 :: "node_20862 \<Rightarrow> node_20862 \<Rightarrow> bool" where
  "node_eq_20862 x n = (node_graph_20862 n = node_graph_20862 x \<and> index_20862 n = index_20862 x)"

definition size_20862 :: "'p graph_20862 \<Rightarrow> size_type" where
  "size_20862 g = of_nat (length (Points_20862 g))"

definition num_nodes_20862 :: "'p graph_20862 \<Rightarrow> size_type" where
  "num_nodes_20862 g = size_20862 g"

text \<open>\<^verbatim>\<open>node(i)\<close> prints a message and returns \<^verbatim>\<open>Node()\<close> when
  \<^verbatim>\<open>i >= Points.size()\<close>; the message is not modelled.\<close>

definition node_20862 :: "graph_ptr \<Rightarrow> 'p graph_20862 \<Rightarrow> size_type \<Rightarrow> node_20862" where
  "node_20862 this g i =
     (if unat i \<ge> length (Points_20862 g) then Node_default_20862 else Node_20862 i (Some this))"

definition add_node_20862 :: "graph_ptr \<Rightarrow> 'p graph_20862 \<Rightarrow> 'p \<Rightarrow> 'p graph_20862 \<times> node_20862" where
  "add_node_20862 this g position =
     (let g' = g\<lparr>Points_20862 := Points_20862 g @ [position]\<rparr>
      in (g', node_20862 this g' (of_nat (length (Points_20862 g') - 1))))"

text \<open>In \<^verbatim>\<open>has_node\<close> the assignment \<^verbatim>\<open>in_graph=false\<close> under
  \<^verbatim>\<open>if(n.index()>this->size())\<close> is followed by the unconditional assignment
  \<^verbatim>\<open>in_graph=this->node(n.index())==n\<close>, which is what the function returns.\<close>

definition has_node_20862 :: "graph_ptr \<Rightarrow> 'p graph_20862 \<Rightarrow> node_20862 \<Rightarrow> bool" where
  "has_node_20862 this g n =
     (let in_graph = (if index_20862 n > size_20862 g then Some False else None);
          in_graph = node_eq_20862 (node_20862 this g (index_20862 n)) n
      in in_graph)"

definition pair_20862 ::
  "(graph_ptr \<rightharpoonup> 'p graph_20862) \<Rightarrow> edge_20862
     \<Rightarrow> error + (graph_ptr \<times> 'p graph_20862 \<times> (size_type \<times> size_type))" where
  "pair_20862 h e =
     (case e of Edge_20862 i gp \<Rightarrow>
        (case gp of
           None \<Rightarrow> Inl Invalid_pointer
         | Some p \<Rightarrow>
             (case h p of
                None \<Rightarrow> Inl Invalid_pointer
              | Some g \<Rightarrow> bindE (subscript (Edges_20862 g) i) (\<lambda>pair. Inr (p, g, pair)))))"

definition node1_20862 :: "(graph_ptr \<rightharpoonup> 'p graph_20862) \<Rightarrow> edge_20862 \<Rightarrow> error + node_20862" where
  "node1_20862 h e = bindE (pair_20862 h e) (\<lambda>(p, g, pair). Inr (node_20862 p g (fst pair)))"

definition node2_20862 :: "(graph_ptr \<rightharpoonup> 'p graph_20862) \<Rightarrow> edge_20862 \<Rightarrow> error + node_20862" where
  "node2_20862 h e = bindE (pair_20862 h e) (\<lambda>(p, g, pair). Inr (node_20862 p g (snd pair)))"

definition node_eqE_20862 :: "error + node_20862 \<Rightarrow> error + node_20862 \<Rightarrow> error + bool" where
  "node_eqE_20862 l r = bindE l (\<lambda>x. bindE r (\<lambda>n. Inr (node_eq_20862 x n)))"

definition edge_eq_20862 ::
  "(graph_ptr \<rightharpoonup> 'p graph_20862) \<Rightarrow> edge_20862 \<Rightarrow> edge_20862 \<Rightarrow> error + bool" where
  "edge_eq_20862 h x e =
     orE (andE (node_eqE_20862 (node1_20862 h x) (node1_20862 h e))
               (node_eqE_20862 (node2_20862 h x) (node2_20862 h e)))
         (andE (node_eqE_20862 (node1_20862 h x) (node2_20862 h e))
               (node_eqE_20862 (node2_20862 h x) (node1_20862 h e)))"

definition num_edges_20862 :: "'p graph_20862 \<Rightarrow> size_type" where
  "num_edges_20862 g = of_nat (length (Edges_20862 g))"

definition edge_20862 :: "graph_ptr \<Rightarrow> 'p graph_20862 \<Rightarrow> size_type \<Rightarrow> edge_20862" where
  "edge_20862 this g i =
     (if unat i > length (Edges_20862 g) then Edge_default_20862 else Edge_20862 i (Some this))"

text \<open>\<^verbatim>\<open>std::find(v.begin(), v.end(), x) - v.begin()\<close>: the position of the first
  element equal to \<open>x\<close>, and \<^verbatim>\<open>v.size()\<close> (the position of \<^verbatim>\<open>v.end()\<close>) when there is
  none.\<close>

fun std_find :: "'a list \<Rightarrow> 'a \<Rightarrow> nat" where
  "std_find [] x = 0"
| "std_find (y # ys) x = (if y = x then 0 else Suc (std_find ys x))"

definition has_edge_20862 :: "'p graph_20862 \<Rightarrow> node_20862 \<Rightarrow> node_20862 \<Rightarrow> bool" where
  "has_edge_20862 g a b =
     (let edge1 = (index_20862 a, index_20862 b);
          edge2 = (index_20862 b, index_20862 a);
          end = length (Edges_20862 g)
      in if std_find (Edges_20862 g) edge1 \<noteq> end then True
         else if std_find (Edges_20862 g) edge2 \<noteq> end then True
         else False)"

definition add_edge_20862 ::
  "graph_ptr \<Rightarrow> 'p graph_20862 \<Rightarrow> node_20862 \<Rightarrow> node_20862 \<Rightarrow> 'p graph_20862 \<times> edge_20862" where
  "add_edge_20862 this g a b =
     (let edge1 = (index_20862 a, index_20862 b);
          edge2 = (index_20862 b, index_20862 a);
          pos1 = std_find (Edges_20862 g) edge1;
          pos2 = std_find (Edges_20862 g) edge2;
          end = length (Edges_20862 g)
      in if pos1 \<noteq> end then (let index = pos1 in (g, edge_20862 this g (of_nat index)))
         else if pos2 \<noteq> end then (let index = pos1 in (g, edge_20862 this g (of_nat index)))
         else (let g' = g\<lparr>Edges_20862 := Edges_20862 g @ [edge1]\<rparr>
               in (g', edge_20862 this g' (of_nat (length (Edges_20862 g') - 1)))))"

definition clear_20862 :: "'p graph_20862 \<Rightarrow> 'p graph_20862" where
  "clear_20862 g = g\<lparr>Points_20862 := [], Edges_20862 := []\<rparr>"


section \<open>hw0/Graph-20558.hpp: edge list of node handles\<close>


datatype edge_20558 =
    Edge_default_20558
  | Edge_20558 size_type graph_ptr

















subsection \<open>Sequences of calls on one graph\<close>





section \<open>Example states\<close>

text \<open>Graphs at address 1 (and 2), with unit positions and values, built by the calls
  named in the theorems that use them.\<close>

definition one_node_26021 :: "(unit, unit) graph_26021" where
  "one_node_26021 =
     \<lparr>m_graph_nodes_26021 = [\<lparr>m_node_point_26021 = (), m_node_value_26021 = ()\<rparr>],
      m_adjacency_26021 = [[]]\<rparr>"

definition three_nodes_26021 :: "(unit, unit) internal_node_26021 list" where
  "three_nodes_26021 =
     [\<lparr>m_node_point_26021 = (), m_node_value_26021 = ()\<rparr>,
      \<lparr>m_node_point_26021 = (), m_node_value_26021 = ()\<rparr>,
      \<lparr>m_node_point_26021 = (), m_node_value_26021 = ()\<rparr>]"

definition isolated_first_26021 :: "(unit, unit) graph_26021" where
  "isolated_first_26021 =
     \<lparr>m_graph_nodes_26021 = three_nodes_26021, m_adjacency_26021 = [[], [2], [1]]\<rparr>"

definition path_26021 :: "(unit, unit) graph_26021" where
  "path_26021 =
     \<lparr>m_graph_nodes_26021 = three_nodes_26021, m_adjacency_26021 = [[1], [0, 2], [1]]\<rparr>"
definition triangle_26021 :: "(unit, unit) graph_26021" where
  "triangle_26021 =
     \<lparr>m_graph_nodes_26021 = three_nodes_26021, m_adjacency_26021 = [[1, 2], [0, 2], [1, 0]]\<rparr>"

definition self_loop_26021 :: "(unit, unit) graph_26021" where
  "self_loop_26021 =
     \<lparr>m_graph_nodes_26021 = [\<lparr>m_node_point_26021 = (), m_node_value_26021 = ()\<rparr>],
      m_adjacency_26021 = [[0, 0]]\<rparr>"

definition one_node_1703 :: "unit graph_1703" where
  "one_node_1703 = \<lparr>nodes_1703 = [\<lparr>position_1703 = (), uid_1703 = 0\<rparr>], edges_1703 = []\<rparr>"

definition two_nodes_1703 :: "unit graph_1703" where
  "two_nodes_1703 =
     \<lparr>nodes_1703 = [\<lparr>position_1703 = (), uid_1703 = 0\<rparr>, \<lparr>position_1703 = (), uid_1703 = 1\<rparr>],
      edges_1703 = []\<rparr>"

definition three_nodes_1703 :: "unit graph_1703" where
  "three_nodes_1703 =
     \<lparr>nodes_1703 = [\<lparr>position_1703 = (), uid_1703 = 0\<rparr>, \<lparr>position_1703 = (), uid_1703 = 1\<rparr>,
                    \<lparr>position_1703 = (), uid_1703 = 2\<rparr>],
      edges_1703 = []\<rparr>"

definition stored_1703 :: "graph_ptr \<Rightarrow> size_type \<Rightarrow> size_type \<Rightarrow> size_type \<Rightarrow> internal_edges_1703" where
  "stored_1703 p a b i = \<lparr>node_a_1703 = Node_1703 p a, node_b_1703 = Node_1703 p b, edgeid_1703 = i\<rparr>"

definition two_nodes_20862 :: "unit graph_20862" where
  "two_nodes_20862 = \<lparr>Points_20862 = [(), ()], Edges_20862 = []\<rparr>"

definition one_edge_20862 :: "unit graph_20862" where
  "one_edge_20862 = \<lparr>Points_20862 = [(), ()], Edges_20862 = [(0, 1)]\<rparr>"


section \<open>Theorems\<close>

subsection \<open>Rules for the error monad and for machine arithmetic\<close>

lemma bindE_simps [simp]:
  "bindE (Inl e) f = Inl e"
  "bindE (Inr x) f = f x"
  by (simp_all add: bindE_def)

lemma andE_simps [simp]:
  "andE (Inl e) r = Inl e"
  "andE (Inr True) r = r"
  "andE (Inr False) r = Inr False"
  by (simp_all add: andE_def)

lemma orE_simps [simp]:
  "orE (Inl e) r = Inl e"
  "orE (Inr True) r = Inr True"
  "orE (Inr False) r = r"
  by (simp_all add: orE_def)

lemma andE_Inr_Inr [simp]: "andE (Inr x) (Inr y) = Inr (x \<and> y)"
  by (simp add: andE_def)

lemma orE_Inr_Inr [simp]: "orE (Inr x) (Inr y) = Inr (x \<or> y)"
  by (simp add: orE_def)

lemma bindE_InrE:
  assumes "bindE m f = Inr y"
  obtains x where "m = Inr x" and "f x = Inr y"
  using assms by (cases m) simp_all

lemma unat_Suc_32: "unat (i :: size_type) + 1 < 2 ^ 32 \<Longrightarrow> unat (i + 1) = unat i + 1"
  using unat_add_lem [of i 1] by simp


lemma num_edges_loop_26021_Nil: "num_edges_loop_26021 [] i tmp = Some tmp"
  by (subst num_edges_loop_26021.simps) simp

lemmas eval_common = subscript_def Let_def

lemmas eval_26021 =
  add_node_26021_def Graph_26021_def size_26021_def num_nodes_26021_def clear_26021_def
  has_node_26021_def add_edge_26021_def m_graph_ptr_26021_def index_26021_def search_26021_def
  find_loop_26021.simps push_both_26021_def num_edges_26021_def
  num_edges_loop_26021.simps edge_begin_26021_def edge_end_26021_def edge_iterator_eq_26021_def
  edge_iterator_deref_26021_def edge_iterator_inc_26021_def edge_iterator_loop_26021.simps
  edge_range_26021_def edge_range_loop_26021.simps edge_26021_def

lemmas eval_1703 =
  add_node_1703_def Graph_1703_def size_1703_def num_nodes_1703_def num_edges_1703_def
  clear_1703_def has_node_1703_def g_1703_def node_1703_def edge_1703_def add_edge_1703_def
  node_eq_1703_def has_edge_1703_def find_edge_1703_def find_edge_loop_1703.simps index_1703_def
  connects_1703_def edge_eq_1703_def node1_1703_def node2_1703_def

lemmas eval_20862 =
  add_node_20862_def Graph_20862_def size_20862_def num_nodes_20862_def num_edges_20862_def
  clear_20862_def has_node_20862_def node_20862_def edge_20862_def add_edge_20862_def
  node_eq_20862_def node_eqE_20862_def edge_eq_20862_def node1_20862_def node2_20862_def
  pair_20862_def Node_default_20862_def Edge_default_20862_def

subsection \<open>The example states are built by the calls they stand for\<close>

lemma one_node_26021_built: "fst (add_node_26021 1 Graph_26021 () ()) = one_node_26021"
  by (simp add: one_node_26021_def eval_26021 eval_common)

lemma isolated_first_26021_built:
  "run_26021 1 [Add_node_26021 () (), Add_node_26021 () (), Add_node_26021 () (),
                Add_edge_26021 (Node_26021 1 1) (Node_26021 1 2)] Graph_26021
     = Inr isolated_first_26021"
  by (simp add: isolated_first_26021_def three_nodes_26021_def eval_26021 eval_common)

lemma path_26021_built:
  "run_26021 1 [Add_node_26021 () (), Add_node_26021 () (), Add_node_26021 () (),
                Add_edge_26021 (Node_26021 1 0) (Node_26021 1 1),
                Add_edge_26021 (Node_26021 1 1) (Node_26021 1 0),
                Add_edge_26021 (Node_26021 1 1) (Node_26021 1 2)] Graph_26021
     = Inr path_26021"
  by (simp add: path_26021_def three_nodes_26021_def eval_26021 eval_common)

lemma one_node_1703_built: "add_node_1703 1 Graph_1703 () = (one_node_1703, Node_1703 1 0)"
  by (simp add: one_node_1703_def eval_1703 eval_common)

lemma two_nodes_1703_built:
  "add_node_1703 p one_node_1703 () = (two_nodes_1703, Node_1703 p 1)"
  by (simp add: one_node_1703_def two_nodes_1703_def eval_1703 eval_common)

lemma three_nodes_1703_built:
  "add_node_1703 p two_nodes_1703 () = (three_nodes_1703, Node_1703 p 2)"
  by (simp add: two_nodes_1703_def three_nodes_1703_def eval_1703 eval_common)

lemma two_nodes_20862_built:
  "add_node_20862 1 Graph_20862 () = (\<lparr>Points_20862 = [()], Edges_20862 = []\<rparr>, Node_20862 0 (Some 1))"
  "add_node_20862 1 \<lparr>Points_20862 = [()], Edges_20862 = []\<rparr> () = (two_nodes_20862, Node_20862 1 (Some 1))"
  by (simp_all add: two_nodes_20862_def eval_20862 eval_common)

subsection \<open>Graph-26021: the search loop\<close>

lemma find_loop_26021_sound:
  assumes "find_loop_26021 tmp x i = Some r"
  shows "r \<longrightarrow> x \<in> set tmp"
proof (rule find_loop_26021.raw_induct [where P = "\<lambda>tmp x i r. r \<longrightarrow> x \<in> set tmp", OF _ assms])
  fix f :: "size_type list \<Rightarrow> size_type \<Rightarrow> size_type \<Rightarrow> bool option" and tmp x i r
  assume ih: "\<And>tmp x i r. f tmp x i = Some r \<Longrightarrow> r \<longrightarrow> x \<in> set tmp"
    and eq: "(if unat i < length tmp
              then if tmp ! unat i = x then Some True else f tmp x (i + 1)
              else Some False) = Some r"
  show "r \<longrightarrow> x \<in> set tmp"
  proof (cases "unat i < length tmp")
    case False
    with eq show ?thesis by simp
  next
    case True
    show ?thesis
    proof (cases "tmp ! unat i = x")
      case True
      with \<open>unat i < length tmp\<close> show ?thesis by auto
    next
      case False
      with True eq have "f tmp x (i + 1) = Some r" by simp
      then show ?thesis by (rule ih)
    qed
  qed
qed

lemma find_loop_26021_complete_aux:
  "n = length tmp - unat i \<Longrightarrow> unat i \<le> length tmp \<Longrightarrow> length tmp < 2 ^ 32 \<Longrightarrow>
   find_loop_26021 tmp x i = Some (x \<in> set (drop (unat i) tmp))"
proof (induction n arbitrary: i)
  case 0
  then show ?case by (subst find_loop_26021.simps) simp
next
  case (Suc n)
  then have lt: "unat i < length tmp" by simp
  have "unat i + 1 < 2 ^ 32" using lt Suc.prems(3) by simp
  then have u: "unat (i + 1) = unat i + 1" by (rule unat_Suc_32)
  have d: "drop (unat i) tmp = tmp ! unat i # drop (unat i + 1) tmp"
    using lt by (simp add: Cons_nth_drop_Suc)
  have ih: "find_loop_26021 tmp x (i + 1) = Some (x \<in> set (drop (unat (i + 1)) tmp))"
    using Suc.prems lt u by (intro Suc.IH) simp_all
  show ?case
    by (subst find_loop_26021.simps) (use lt u d ih in auto)
qed

lemma find_loop_26021_complete: "length tmp < 2 ^ 32 \<Longrightarrow> find_loop_26021 tmp x 0 = Some (x \<in> set tmp)"
  using find_loop_26021_complete_aux [of "length tmp" tmp 0 x] by simp

lemma search_26021_True:
  assumes "search_26021 g (Node_26021 pa ia) (Node_26021 pb ib) = Inr True"
  shows "unat ia < length (m_adjacency_26021 g) \<and> ib \<in> set (m_adjacency_26021 g ! unat ia)"
proof -
  from assms have lt: "unat ia < length (m_adjacency_26021 g)"
    by (auto simp: search_26021_def index_26021_def subscript_def split: if_splits)
  with assms have "find_loop_26021 (m_adjacency_26021 g ! unat ia) ib 0 = Some True"
    by (auto simp: search_26021_def index_26021_def subscript_def split: option.splits)
  from find_loop_26021_sound [OF this, THEN mp] lt show ?thesis by simp
qed

subsection \<open>Graph-26021: what a call of add_edge that returns has done\<close>

lemma push_both_26021_Inr:
  assumes "push_both_26021 this g ia ib = Inr (g', e)"
  shows "unat ia < length (m_adjacency_26021 g) \<and> unat ib < length (m_adjacency_26021 g) \<and>
         e = Edge_26021 this ia ib \<and>
         g' = g\<lparr>m_adjacency_26021 :=
                 ((m_adjacency_26021 g)[unat ib := m_adjacency_26021 g ! unat ib @ [ia]])
                   [unat ia := ((m_adjacency_26021 g)[unat ib := m_adjacency_26021 g ! unat ib @ [ia]]) ! unat ia @ [ib]]\<rparr>"
  using assms by (auto simp: push_both_26021_def subscript_def Let_def split: if_splits)

lemma push_both_26021_nodes:
  "push_both_26021 this g ia ib = Inr (g', e) \<Longrightarrow> m_graph_nodes_26021 g' = m_graph_nodes_26021 g"
  by (auto simp: push_both_26021_def subscript_def Let_def split: if_splits)

lemma push_both_26021_sets:
  assumes "push_both_26021 this g ia ib = Inr (g', e)"
  shows "length (m_adjacency_26021 g') = length (m_adjacency_26021 g)"
    and "unat ia < length (m_adjacency_26021 g)"
    and "unat ib < length (m_adjacency_26021 g)"
    and "k < length (m_adjacency_26021 g) \<Longrightarrow>
         set (m_adjacency_26021 g' ! k) =
           set (m_adjacency_26021 g ! k) \<union> (if k = unat ia then {ib} else {})
             \<union> (if k = unat ib then {ia} else {})"
proof -
  note r = push_both_26021_Inr [OF assms]
  show "length (m_adjacency_26021 g') = length (m_adjacency_26021 g)"
    using r by simp
  show "unat ia < length (m_adjacency_26021 g)" "unat ib < length (m_adjacency_26021 g)"
    using r by simp_all
  assume "k < length (m_adjacency_26021 g)"
  then show "set (m_adjacency_26021 g' ! k) =
           set (m_adjacency_26021 g ! k) \<union> (if k = unat ia then {ib} else {})
             \<union> (if k = unat ib then {ia} else {})"
    using r by (auto simp: nth_list_update)
qed

lemma add_edge_26021_Inr:
  assumes "add_edge_26021 this g a b = Inr (g', e)"
  shows "\<exists>pa ia pb ib. a = Node_26021 pa ia \<and> b = Node_26021 pb ib \<and> e = Edge_26021 this ia ib \<and>
           ((g' = g \<and> pa = this \<and> pb = this \<and> search_26021 g a b = Inr True) \<or>
            push_both_26021 this g ia ib = Inr (g', e))"
proof -
  obtain pa ia where a: "a = Node_26021 pa ia"
    using assms by (cases a) (simp_all add: add_edge_26021_def m_graph_ptr_26021_def)
  have "index_26021 b \<noteq> Inl Uninitialised_read"
  proof
    assume "index_26021 b = Inl Uninitialised_read"
    then have "b = Node_default_26021" by (cases b) (simp_all add: index_26021_def)
    with assms a show False
      by (cases "pa = this") (simp_all add: add_edge_26021_def m_graph_ptr_26021_def index_26021_def
          search_26021_def bindE_def split: sum.splits)
  qed
  then obtain pb ib where b: "b = Node_26021 pb ib"
    by (cases b) (simp_all add: index_26021_def)
  show ?thesis
  proof (cases "pa = this \<and> pb = this")
    case True
    then have own: "andE (bindE (m_graph_ptr_26021 a) (\<lambda>p. Inr (p = this)))
                  (bindE (m_graph_ptr_26021 b) (\<lambda>p. Inr (p = this))) = Inr True"
      by (simp add: a b m_graph_ptr_26021_def)
    from assms obtain found where f: "search_26021 g a b = Inr found"
      and r: "(if found then Inr (g, Edge_26021 this ia ib) else push_both_26021 this g ia ib) = Inr (g', e)"
      unfolding add_edge_26021_def own by (cases "search_26021 g a b") (simp_all add: a b index_26021_def)
    show ?thesis
    proof (cases found)
      case True
      with r f \<open>pa = this \<and> pb = this\<close> show ?thesis by (simp add: a b)
    next
      case False
      with r have p: "push_both_26021 this g ia ib = Inr (g', e)" by simp
      then have "e = Edge_26021 this ia ib" by (simp add: push_both_26021_Inr)
      with p show ?thesis by (simp add: a b)
    qed
  next
    case False
    then have own: "andE (bindE (m_graph_ptr_26021 a) (\<lambda>p. Inr (p = this)))
                  (bindE (m_graph_ptr_26021 b) (\<lambda>p. Inr (p = this))) = Inr False"
      by (cases "pa = this") (simp_all add: a b m_graph_ptr_26021_def)
    from assms have p: "push_both_26021 this g ia ib = Inr (g', e)"
      unfolding add_edge_26021_def own by (simp add: a b index_26021_def)
    then have "e = Edge_26021 this ia ib" by (simp add: push_both_26021_Inr)
    with p show ?thesis by (simp add: a b)
  qed
qed

lemma add_edge_26021_nodes:
  assumes "add_edge_26021 this g a b = Inr r"
  shows "m_graph_nodes_26021 (fst r) = m_graph_nodes_26021 g"
proof -
  obtain g' e where r: "r = (g', e)" by (cases r)
  from add_edge_26021_Inr [OF assms [unfolded r]] show ?thesis
    unfolding r by (auto dest: push_both_26021_nodes)
qed

lemma unat_less_size_26021:
  assumes "i < size_26021 g"
  shows "unat i < length (m_graph_nodes_26021 g)"
proof -
  have "unat i < unat (of_nat (length (m_graph_nodes_26021 g)) :: size_type)"
    using assms by (simp add: size_26021_def word_less_nat_alt)
  also have "\<dots> \<le> length (m_graph_nodes_26021 g)"
    by (simp add: unat_of_nat)
  finally show ?thesis .
qed

lemma add_edge_26021_returns:
  assumes "ia < size_26021 g" and "ib < size_26021 g"
    and "length (m_adjacency_26021 g) = length (m_graph_nodes_26021 g)"
    and "length (m_adjacency_26021 g ! unat ia) < 2 ^ 32"
  shows "\<exists>g' e. add_edge_26021 this g (Node_26021 this ia) (Node_26021 this ib) = Inr (g', e)"
proof -
  have ia: "unat ia < length (m_adjacency_26021 g)" and ib: "unat ib < length (m_adjacency_26021 g)"
    using assms(1,2,3) by (simp_all add: unat_less_size_26021)
  have s: "search_26021 g (Node_26021 this ia) (Node_26021 this ib)
            = Inr (ib \<in> set (m_adjacency_26021 g ! unat ia))"
    using ia find_loop_26021_complete [OF assms(4)]
    by (simp add: search_26021_def index_26021_def subscript_def)
  have p: "\<exists>g' e. push_both_26021 this g ia ib = Inr (g', e)"
    using ia ib by (simp add: push_both_26021_def subscript_def Let_def)
  show ?thesis
    using s p by (simp add: add_edge_26021_def m_graph_ptr_26021_def index_26021_def)
qed

subsection \<open>Graph-26021: the representation invariant is kept\<close>

lemma in_range_add_node:
  "in_range_26021 g \<Longrightarrow> in_range_26021 (fst (add_node_26021 this g position v))"
  by (auto simp: in_range_26021_def add_node_26021_def Let_def less_Suc_eq)

lemma symmetric_add_node:
  assumes "in_range_26021 g" "symmetric_26021 g"
  shows "symmetric_26021 (fst (add_node_26021 this g position v))"
proof -
  have nin: "i \<notin> set (m_adjacency_26021 g ! k)"
    if "unat i = length (m_adjacency_26021 g)" "k < length (m_adjacency_26021 g)" for i k
    using assms(1) that unfolding in_range_26021_def by (metis less_irrefl nth_mem)
  show ?thesis
    unfolding symmetric_26021_def
  proof (intro allI impI, elim conjE)
    fix i j :: size_type
    let ?adj = "m_adjacency_26021 g"
    let ?adj' = "m_adjacency_26021 (fst (add_node_26021 this g position v))"
    assume i: "unat i < length ?adj'" and j: "unat j < length ?adj'"
    have adj': "?adj' = ?adj @ [[]]" by (simp add: add_node_26021_def Let_def)
    show "j \<in> set (?adj' ! unat i) \<longleftrightarrow> i \<in> set (?adj' ! unat j)"
    proof (cases "unat i < length ?adj")
      case iT: True
      show ?thesis
      proof (cases "unat j < length ?adj")
        case True
        with iT assms(2) show ?thesis
          unfolding adj' symmetric_26021_def by (simp add: nth_append)
      next
        case False
        with j have "unat j = length ?adj" by (simp add: adj')
        with iT nin [of j "unat i"] show ?thesis by (simp add: adj' nth_append)
      qed
    next
      case False
      with i have ie: "unat i = length ?adj" by (simp add: adj')
      show ?thesis
      proof (cases "unat j < length ?adj")
        case True
        with ie nin [of i "unat j"] show ?thesis by (simp add: adj' nth_append)
      next
        case False
        with j have "unat j = length ?adj" by (simp add: adj')
        with ie show ?thesis by (simp add: adj' nth_append)
      qed
    qed
  qed
qed

lemma in_range_push_both:
  assumes "push_both_26021 this g ia ib = Inr (g', e)" and "in_range_26021 g"
  shows "in_range_26021 g'"
  unfolding in_range_26021_def
proof (intro ballI)
  fix v j assume v: "v \<in> set (m_adjacency_26021 g')" and j: "j \<in> set v"
  note s = push_both_26021_sets [OF assms(1)]
  from v obtain k where k: "k < length (m_adjacency_26021 g')" "v = m_adjacency_26021 g' ! k"
    by (auto simp: in_set_conv_nth)
  then have kl: "k < length (m_adjacency_26021 g)" using s(1) by simp
  from j k s(4) [OF kl] have "j \<in> set (m_adjacency_26021 g ! k) \<or> j = ia \<or> j = ib"
    by (auto split: if_splits)
  moreover have "unat j < length (m_adjacency_26021 g)" if "j \<in> set (m_adjacency_26021 g ! k)"
    using assms(2) kl that unfolding in_range_26021_def by (meson nth_mem)
  ultimately show "unat j < length (m_adjacency_26021 g')"
    using s(1,2,3) by auto
qed

lemma symmetric_push_both:
  assumes "push_both_26021 this g ia ib = Inr (g', e)" and "symmetric_26021 g"
  shows "symmetric_26021 g'"
  unfolding symmetric_26021_def
proof (intro allI impI, elim conjE)
  fix i j :: size_type
  note s = push_both_26021_sets [OF assms(1)]
  assume "unat i < length (m_adjacency_26021 g')" "unat j < length (m_adjacency_26021 g')"
  then have i: "unat i < length (m_adjacency_26021 g)" and j: "unat j < length (m_adjacency_26021 g)"
    using s(1) by simp_all
  have old: "j \<in> set (m_adjacency_26021 g ! unat i) \<longleftrightarrow> i \<in> set (m_adjacency_26021 g ! unat j)"
    using assms(2) i j unfolding symmetric_26021_def by blast
  show "j \<in> set (m_adjacency_26021 g' ! unat i) \<longleftrightarrow> i \<in> set (m_adjacency_26021 g' ! unat j)"
    unfolding s(4) [OF i] s(4) [OF j] using old
    by (auto simp: word_unat_eq_iff split: if_splits)
qed

lemma length_adjacency_push_both:
  "push_both_26021 this g ia ib = Inr (g', e) \<Longrightarrow>
   length (m_adjacency_26021 g') = length (m_graph_nodes_26021 g') \<longleftrightarrow>
   length (m_adjacency_26021 g) = length (m_graph_nodes_26021 g)"
  using push_both_26021_sets(1) [of this g ia ib g' e] push_both_26021_nodes [of this g ia ib g' e]
  by simp

lemma invariant_Graph_26021: "invariant_26021 Graph_26021"
  by (simp add: invariant_26021_def in_range_26021_def symmetric_26021_def Graph_26021_def)

lemma invariant_clear_26021: "invariant_26021 (clear_26021 g)"
  by (simp add: invariant_26021_def in_range_26021_def symmetric_26021_def clear_26021_def)

lemma invariant_add_node_26021:
  assumes "invariant_26021 g"
  shows "invariant_26021 (fst (add_node_26021 this g position v))"
proof -
  have "length (m_adjacency_26021 (fst (add_node_26021 this g position v)))
        = length (m_graph_nodes_26021 (fst (add_node_26021 this g position v)))"
    using assms by (simp add: invariant_26021_def add_node_26021_def Let_def)
  with assms in_range_add_node [of g this position v] symmetric_add_node [of g this position v]
  show ?thesis by (simp add: invariant_26021_def)
qed

lemma invariant_add_edge_26021:
  assumes "add_edge_26021 this g a b = Inr (g', e)" and "invariant_26021 g"
  shows "invariant_26021 g'"
proof -
  from add_edge_26021_Inr [OF assms(1)] obtain ia ib where
    "g' = g \<or> push_both_26021 this g ia ib = Inr (g', e)" by blast
  then show ?thesis
  proof
    assume "g' = g" with assms(2) show ?thesis by simp
  next
    assume p: "push_both_26021 this g ia ib = Inr (g', e)"
    with assms(2) in_range_push_both [OF p] symmetric_push_both [OF p]
      length_adjacency_push_both [OF p]
    show ?thesis by (simp add: invariant_26021_def)
  qed
qed

lemma run_26021_invariant:
  "run_26021 this cs g = Inr g' \<Longrightarrow> invariant_26021 g \<Longrightarrow> invariant_26021 g'"
proof (induction cs arbitrary: g)
  case Nil
  then show ?case by simp
next
  case (Cons c cs)
  show ?case
  proof (cases c)
    case (Add_node_26021 position v)
    with Cons.prems invariant_add_node_26021 [of g this position v] show ?thesis
      by (auto intro: Cons.IH)
  next
    case (Add_edge_26021 a b)
    with Cons.prems obtain r where r: "add_edge_26021 this g a b = Inr r"
      and run: "run_26021 this cs (fst r) = Inr g'"
      by (auto elim: bindE_InrE)
    from r have "add_edge_26021 this g a b = Inr (fst r, snd r)" by simp
    then have "invariant_26021 (fst r)" using Cons.prems(2) by (rule invariant_add_edge_26021)
    with run show ?thesis by (rule Cons.IH)
  next
    case Clear_26021
    with Cons.prems invariant_clear_26021 [of g] show ?thesis
      by (auto intro: Cons.IH)
  qed
qed

lemma add_edge_26021_both_directions:
  assumes "add_edge_26021 this g a b = Inr (g', e)" and "invariant_26021 g"
    and "index_26021 a = Inr ia" and "index_26021 b = Inr ib"
  shows "unat ia < length (m_adjacency_26021 g') \<and> unat ib < length (m_adjacency_26021 g') \<and>
         ib \<in> set (m_adjacency_26021 g' ! unat ia) \<and> ia \<in> set (m_adjacency_26021 g' ! unat ib)"
proof -
  from add_edge_26021_Inr [OF assms(1)] assms(3,4) obtain pa pb where
    ab: "a = Node_26021 pa ia" "b = Node_26021 pb ib" and
    c: "(g' = g \<and> search_26021 g a b = Inr True) \<or> push_both_26021 this g ia ib = Inr (g', e)"
    by (auto simp: index_26021_def)
  from c show ?thesis
  proof
    assume f: "g' = g \<and> search_26021 g a b = Inr True"
    then have s: "unat ia < length (m_adjacency_26021 g)" "ib \<in> set (m_adjacency_26021 g ! unat ia)"
      using search_26021_True [of g pa ia pb ib] ab by simp_all
    have r: "unat ib < length (m_adjacency_26021 g)"
      using assms(2) s unfolding invariant_26021_def in_range_26021_def by (meson nth_mem)
    have "ia \<in> set (m_adjacency_26021 g ! unat ib)"
      using assms(2) s r unfolding invariant_26021_def symmetric_26021_def by blast
    with f s r show ?thesis by simp
  next
    assume p: "push_both_26021 this g ia ib = Inr (g', e)"
    note s = push_both_26021_sets [OF p]
    show ?thesis
      using s(1,2,3) s(4) [OF s(2)] s(4) [OF s(3)] by simp
  qed
qed

subsection \<open>Counting the nodes\<close>






subsection \<open>Graph-26021: equality of handles\<close>

lemma node_eq_26021_valid:
  assumes "h p = Some g" and "i < size_26021 g"
  shows "node_eq_26021 h (Node_26021 p i) (Node_26021 p i) = Inr True"
  using assms by (simp add: node_eq_26021_def has_node_26021_def index_26021_def)

lemma node_eq_26021_constructed:
  assumes "h p = Some g"
  shows "node_eq_26021 h (Node_26021 p i) (Node_26021 q j)
           = (if j < size_26021 g then Inr (q = p \<and> i = j) else Inl Assertion_failed)"
  using assms by (simp add: node_eq_26021_def has_node_26021_def index_26021_def)

subsection \<open>Claims\<close>

text \<open>
  C1. Enumerating \<^verbatim>\<open>edge_begin()..edge_end()\<close> should yield exactly \<^verbatim>\<open>num_edges()\<close>
  edges, every undirected edge once, with \<^verbatim>\<open>edge_begin()\<close> advancing past the entries
  that fail the lesser-endpoint test. In Graph-26021 \<^verbatim>\<open>edge_begin()\<close> is the position
  (node 0, entry 0) as it stands; only \<^verbatim>\<open>operator++\<close> skips. After three \<^verbatim>\<open>add_node\<close>
  calls and \<^verbatim>\<open>add_edge(n1, n2)\<close> node 0 has no entry: the graph has one edge, the first
  dereference of the enumeration, and the one of \<^verbatim>\<open>edge(0)\<close>, reads \<^verbatim>\<open>m_adjacency[0][0]\<close>
  outside the empty vector, and the positions after it hold the one edge. With one node
  and no edge the range is not empty although \<^verbatim>\<open>num_edges()\<close> is 0.
\<close>

theorem edge_begin_26021_not_advanced:
  "run_26021 1 [Add_node_26021 () (), Add_node_26021 () (), Add_node_26021 () (),
                Add_edge_26021 (Node_26021 1 1) (Node_26021 1 2)] Graph_26021
     = Inr isolated_first_26021 \<and>
   num_edges_26021 isolated_first_26021 = Inr 1 \<and>
   edge_begin_26021 1 isolated_first_26021 = EdgeIterator_26021 1 0 0 \<and>
   edge_iterator_deref_26021 [1 \<mapsto> isolated_first_26021] (edge_begin_26021 1 isolated_first_26021)
     = Inl Out_of_range \<and>
   edge_26021 [1 \<mapsto> isolated_first_26021] 1 0 = Inl Out_of_range \<and>
   edge_range_26021 [1 \<mapsto> isolated_first_26021]
       (edge_begin_26021 1 isolated_first_26021) (edge_end_26021 1 isolated_first_26021)
     = Inl Out_of_range \<and>
   edge_iterator_inc_26021 [1 \<mapsto> isolated_first_26021] (edge_begin_26021 1 isolated_first_26021)
     = Inr (EdgeIterator_26021 1 1 0) \<and>
   edge_range_26021 [1 \<mapsto> isolated_first_26021]
       (EdgeIterator_26021 1 1 0) (edge_end_26021 1 isolated_first_26021)
     = Inr [Edge_26021 1 1 2] \<and>
   fst (add_node_26021 1 Graph_26021 () ()) = one_node_26021 \<and>
   num_edges_26021 one_node_26021 = Inr 0 \<and>
   edge_iterator_eq_26021 (edge_begin_26021 1 one_node_26021) (edge_end_26021 1 one_node_26021)
     = Inr False \<and>
   edge_range_26021 [1 \<mapsto> one_node_26021]
       (edge_begin_26021 1 one_node_26021) (edge_end_26021 1 one_node_26021)
     = Inl Out_of_range"
  by (simp add: isolated_first_26021_def three_nodes_26021_def one_node_26021_def
      eval_26021 eval_common)

text \<open>
  C2. After \<^verbatim>\<open>add_edge(a,b)\<close> a second \<^verbatim>\<open>add_edge(a,b)\<close> or \<^verbatim>\<open>add_edge(b,a)\<close> should
  leave \<^verbatim>\<open>num_edges()\<close> unchanged and return an Edge equal to the first. In Graph-20862
  the branch for the reversed pair computes its index from \<^verbatim>\<open>pos1\<close>, the failed search,
  instead of \<^verbatim>\<open>pos2\<close>: on two nodes, after \<^verbatim>\<open>add_edge(n0, n1)\<close> returned the edge 0, the
  call \<^verbatim>\<open>add_edge(n1, n0)\<close> returns the handle with identifier 1 = \<^verbatim>\<open>num_edges()\<close>, and
  comparing it with the first edge reads \<^verbatim>\<open>Edges[1]\<close> outside the vector. The repeated
  call \<^verbatim>\<open>add_edge(n0, n1)\<close> does return the edge 0.
\<close>

theorem add_edge_20862_reversed_pair:
  "add_edge_20862 1 two_nodes_20862 (Node_20862 0 (Some 1)) (Node_20862 1 (Some 1))
     = (one_edge_20862, Edge_20862 0 (Some 1)) \<and>
   add_edge_20862 1 one_edge_20862 (Node_20862 1 (Some 1)) (Node_20862 0 (Some 1))
     = (one_edge_20862, Edge_20862 1 (Some 1)) \<and>
   num_edges_20862 one_edge_20862 = 1 \<and>
   edge_eq_20862 [1 \<mapsto> one_edge_20862] (Edge_20862 1 (Some 1)) (Edge_20862 0 (Some 1))
     = Inl Out_of_range \<and>
   edge_eq_20862 [1 \<mapsto> one_edge_20862] (Edge_20862 0 (Some 1)) (Edge_20862 1 (Some 1))
     = Inl Out_of_range \<and>
   add_edge_20862 1 one_edge_20862 (Node_20862 0 (Some 1)) (Node_20862 1 (Some 1))
     = (one_edge_20862, Edge_20862 0 (Some 1)) \<and>
   edge_eq_20862 [1 \<mapsto> one_edge_20862] (Edge_20862 0 (Some 1)) (Edge_20862 0 (Some 1))
     = Inr True"
  by (simp add: two_nodes_20862_def one_edge_20862_def eval_20862 eval_common)

text \<open>
  C3, as amended. In Graph-1703 \<^verbatim>\<open>add_edge(a, a)\<close>, for every node handle \<open>a\<close> that a graph
  produced, returns the default-constructed Edge and changes nothing: \<^verbatim>\<open>num_edges()\<close> is
  what it was. Graph-26021 has \<^verbatim>\<open>a != b\<close> as a precondition that \<^verbatim>\<open>add_edge\<close> does not
  test: it does not reject the call, and whenever \<^verbatim>\<open>add_edge(a, a)\<close> returns there, it
  returns the edge \<open>(a, a)\<close> and not the default-constructed Edge.
\<close>

theorem add_edge_self_loop:
  "(h this = Some g \<longrightarrow>
      add_edge_1703 h this (Node_1703 p u) (Node_1703 p u) = Inr (h, Edge_default_1703) \<and>
      map_option num_edges_1703
          (fst (projr (add_edge_1703 h this (Node_1703 p u) (Node_1703 p u))) this)
        = Some (num_edges_1703 g)) \<and>
   (add_edge_26021 this' g' (Node_26021 q i) (Node_26021 q i) = Inr (g'', e) \<longrightarrow>
      e = Edge_26021 this' i i \<and> e \<noteq> Edge_default_26021)"
proof (intro conjI impI)
  assume "h this = Some g"
  then have r: "add_edge_1703 h this (Node_1703 p u) (Node_1703 p u) = Inr (h, Edge_default_1703)"
    by (simp add: add_edge_1703_def node_eq_1703_def)
  then show "add_edge_1703 h this (Node_1703 p u) (Node_1703 p u) = Inr (h, Edge_default_1703)" .
  show "map_option num_edges_1703
          (fst (projr (add_edge_1703 h this (Node_1703 p u) (Node_1703 p u))) this)
        = Some (num_edges_1703 g)"
    unfolding r using \<open>h this = Some g\<close> by simp
next
  assume r: "add_edge_26021 this' g' (Node_26021 q i) (Node_26021 q i) = Inr (g'', e)"
  from add_edge_26021_Inr [OF r] show "e = Edge_26021 this' i i" by auto
  then show "e \<noteq> Edge_default_26021" by simp
qed

theorem add_edge_self_loop_witness:
  "add_edge_1703 [1 \<mapsto> one_node_1703] 1 (Node_1703 1 0) (Node_1703 1 0)
     = Inr ([1 \<mapsto> one_node_1703], Edge_default_1703) \<and>
   map_option num_edges_1703
       (fst (projr (add_edge_1703 [1 \<mapsto> one_node_1703] 1 (Node_1703 1 0) (Node_1703 1 0))) 1)
     = Some (num_edges_1703 one_node_1703) \<and>
   snd (projr (add_edge_26021 1 one_node_26021 (Node_26021 1 0) (Node_26021 1 0)))
     = Edge_26021 1 0 0 \<and>
   snd (projr (add_edge_26021 1 one_node_26021 (Node_26021 1 0) (Node_26021 1 0)))
     \<noteq> Edge_default_26021"
proof -
  have live: "[1 \<mapsto> one_node_1703] 1 = Some one_node_1703" by simp
  have "add_edge_26021 1 one_node_26021 (Node_26021 1 0) (Node_26021 1 0)
          = Inr (self_loop_26021, Edge_26021 1 0 0)"
    by (simp add: one_node_26021_def self_loop_26021_def eval_26021 eval_common)
  then have returned: "add_edge_26021 1 one_node_26021 (Node_26021 1 0) (Node_26021 1 0)
      = Inr (fst (projr (add_edge_26021 1 one_node_26021 (Node_26021 1 0) (Node_26021 1 0))),
             snd (projr (add_edge_26021 1 one_node_26021 (Node_26021 1 0) (Node_26021 1 0))))"
    by simp
  note t = add_edge_self_loop [where h = "[1 \<mapsto> one_node_1703]" and this = 1
      and g = one_node_1703 and p = 1 and u = 0 and this' = 1 and g' = one_node_26021
      and q = 1 and i = 0
      and g'' = "fst (projr (add_edge_26021 1 one_node_26021 (Node_26021 1 0) (Node_26021 1 0)))"
      and e = "snd (projr (add_edge_26021 1 one_node_26021 (Node_26021 1 0) (Node_26021 1 0)))"]
  from t live returned show ?thesis by blast
qed

text \<open>In Graph-26021 the call \<^verbatim>\<open>add_edge(n0, n0)\<close> on the graph of one node, with \<open>n0\<close>
  its valid node, pushes 0 twice onto the adjacency entry of node 0, returns the edge
  \<open>(0, 0)\<close>, which is not the default-constructed Edge, and takes \<^verbatim>\<open>num_edges()\<close> from
  0 to 1.\<close>

theorem add_edge_26021_self_loop_counterexample:
  "has_node_26021 1 one_node_26021 (Node_26021 1 0) = Inr True \<and>
   add_edge_26021 1 one_node_26021 (Node_26021 1 0) (Node_26021 1 0)
     = Inr (self_loop_26021, Edge_26021 1 0 0) \<and>
   Edge_26021 1 0 0 \<noteq> Edge_default_26021 \<and>
   num_edges_26021 one_node_26021 = Inr 0 \<and>
   num_edges_26021 self_loop_26021 = Inr 1"
  by (simp add: one_node_26021_def self_loop_26021_def eval_26021 eval_common)

text \<open>
  C4. Two Edge handles should be equal exactly when they connect the same unordered
  pair of nodes in the same graph. In Graph-1703 \<^verbatim>\<open>Edge::operator==\<close> compares
  \<^verbatim>\<open>edgeid_\<close> only, and \<^verbatim>\<open>add_edge\<close> gives a new edge the identifier \<^verbatim>\<open>size()\<close>, the
  number of nodes. On three nodes the edges \<open>{0,1}\<close> and \<open>{1,2}\<close> both get the
  identifier 3 and compare equal; adding \<open>{0,1}\<close> again returns the identifier 0, which
  compares unequal to the handle of the first call; and the first edges of two graphs
  with two nodes each, at the addresses 1 and 2, compare equal.
\<close>

theorem edge_eq_1703_ignores_pair_and_graph:
  "add_edge_1703 [1 \<mapsto> three_nodes_1703] 1 (Node_1703 1 0) (Node_1703 1 1)
     = Inr ([1 \<mapsto> three_nodes_1703\<lparr>edges_1703 := [stored_1703 1 0 1 3]\<rparr>], Edge_1703 1 3 0 1) \<and>
   add_edge_1703 [1 \<mapsto> three_nodes_1703\<lparr>edges_1703 := [stored_1703 1 0 1 3]\<rparr>] 1
       (Node_1703 1 1) (Node_1703 1 2)
     = Inr ([1 \<mapsto> three_nodes_1703\<lparr>edges_1703 := [stored_1703 1 0 1 3, stored_1703 1 1 2 3]\<rparr>],
            Edge_1703 1 3 1 2) \<and>
   edge_eq_1703 (Edge_1703 1 3 0 1) (Edge_1703 1 3 1 2) = Inr True \<and>
   add_edge_1703 [1 \<mapsto> three_nodes_1703\<lparr>edges_1703 := [stored_1703 1 0 1 3, stored_1703 1 1 2 3]\<rparr>] 1
       (Node_1703 1 0) (Node_1703 1 1)
     = Inr ([1 \<mapsto> three_nodes_1703\<lparr>edges_1703 := [stored_1703 1 0 1 3, stored_1703 1 1 2 3]\<rparr>],
            Edge_1703 1 0 0 1) \<and>
   edge_eq_1703 (Edge_1703 1 3 0 1) (Edge_1703 1 0 0 1) = Inr False \<and>
   add_edge_1703 [1 \<mapsto> two_nodes_1703, 2 \<mapsto> two_nodes_1703] 1 (Node_1703 1 0) (Node_1703 1 1)
     = Inr ([1 \<mapsto> two_nodes_1703, 2 \<mapsto> two_nodes_1703,
             1 \<mapsto> two_nodes_1703\<lparr>edges_1703 := [stored_1703 1 0 1 2]\<rparr>],
            Edge_1703 1 2 0 1) \<and>
   add_edge_1703 [1 \<mapsto> two_nodes_1703, 2 \<mapsto> two_nodes_1703,
                  1 \<mapsto> two_nodes_1703\<lparr>edges_1703 := [stored_1703 1 0 1 2]\<rparr>] 2
       (Node_1703 2 0) (Node_1703 2 1)
     = Inr ([1 \<mapsto> two_nodes_1703, 2 \<mapsto> two_nodes_1703,
             1 \<mapsto> two_nodes_1703\<lparr>edges_1703 := [stored_1703 1 0 1 2]\<rparr>,
             2 \<mapsto> two_nodes_1703\<lparr>edges_1703 := [stored_1703 2 0 1 2]\<rparr>],
            Edge_1703 2 2 0 1) \<and>
   edge_eq_1703 (Edge_1703 1 2 0 1) (Edge_1703 2 2 0 1) = Inr True"
  by (simp add: three_nodes_1703_def two_nodes_1703_def stored_1703_def eval_1703 eval_common)

text \<open>
  C5. \<^verbatim>\<open>has_node(n)\<close> should be true exactly when \<open>n\<close> was produced by this graph and
  its identifier is within the current bounds, and so false for a handle whose
  identifier is out of bounds after \<^verbatim>\<open>clear()\<close>. Graph-1703 compares the graph pointer
  only: the handle of the one node of a graph is still accepted after \<^verbatim>\<open>clear()\<close>, when
  \<^verbatim>\<open>num_nodes()\<close> is 0. Graph-20862 overwrites its bounds test with
  \<^verbatim>\<open>node(n.index()) == n\<close>, and \<^verbatim>\<open>node\<close> answers an index out of bounds with \<^verbatim>\<open>Node()\<close>:
  the default-constructed handle, which no graph produced, is accepted by the empty
  graph. Graph-26021 asserts the bound, so the stale handle stops the program there
  instead of giving false.
\<close>

theorem has_node_accepts_stale_and_default:
  "add_node_1703 1 Graph_1703 () = (one_node_1703, Node_1703 1 0) \<and>
   num_nodes_1703 (clear_1703 one_node_1703) = 0 \<and>
   has_node_1703 1 (clear_1703 one_node_1703) (Node_1703 1 0) = Inr True \<and>
   num_nodes_20862 (Graph_20862 :: unit graph_20862) = 0 \<and>
   has_node_20862 1 (Graph_20862 :: unit graph_20862) Node_default_20862 = True \<and>
   add_node_26021 1 Graph_26021 () () = (one_node_26021, Node_26021 1 0) \<and>
   num_nodes_26021 (clear_26021 one_node_26021) = 0 \<and>
   has_node_26021 1 (clear_26021 one_node_26021) (Node_26021 1 0) = Inl Assertion_failed"
  by (simp add: one_node_1703_def eval_1703 eval_20862 one_node_26021_def eval_26021 eval_common)



text \<open>
  C7. After \<^verbatim>\<open>clear()\<close>, in any state of the graph, \<^verbatim>\<open>num_nodes()\<close> and \<^verbatim>\<open>num_edges()\<close>
  are 0 and the next \<^verbatim>\<open>add_node\<close> returns the handle with identifier 0 (in Graph-1703
  also \<^verbatim>\<open>index()\<close>, read from the node storage, is 0). Graph-26021 and Graph-1703.
\<close>

theorem clear_resets_counts_and_identifiers:
  "num_nodes_26021 (clear_26021 g) = 0 \<and>
   num_edges_26021 (clear_26021 g) = Inr 0 \<and>
   snd (add_node_26021 this (clear_26021 g) position v) = Node_26021 this 0 \<and>
   index_26021 (snd (add_node_26021 this (clear_26021 g) position v)) = Inr 0 \<and>
   num_nodes_1703 (clear_1703 g') = 0 \<and>
   num_edges_1703 (clear_1703 g') = 0 \<and>
   snd (add_node_1703 this' (clear_1703 g') position') = Node_1703 this' 0 \<and>
   index_1703 (h(this' \<mapsto> fst (add_node_1703 this' (clear_1703 g') position')))
     (snd (add_node_1703 this' (clear_1703 g') position')) = Inr 0"
  by (simp add: num_nodes_26021_def size_26021_def clear_26021_def num_edges_26021_def
      num_edges_loop_26021_Nil add_node_26021_def Let_def index_26021_def
      num_nodes_1703_def size_1703_def clear_1703_def num_edges_1703_def add_node_1703_def
      index_1703_def subscript_def)

text \<open>
  C8. In every state of Graph-26021 reached from the empty graph by calls of \<^verbatim>\<open>add_node\<close>,
  \<^verbatim>\<open>add_edge\<close> and \<^verbatim>\<open>clear\<close> that returned, there is one adjacency entry per node, and
  for all identifiers \<open>i\<close> and \<open>j\<close> of entries, \<open>j\<close> is in the entry of \<open>i\<close> exactly when
  \<open>i\<close> is in the entry of \<open>j\<close>. A further \<^verbatim>\<open>add_edge(a, b)\<close> that returns leaves \<open>b\<close>
  in the entry of \<open>a\<close> and \<open>a\<close> in the entry of \<open>b\<close>: both directions within the one call.
\<close>

theorem adjacency_26021_symmetric:
  assumes "run_26021 this cs Graph_26021 = Inr g"
  shows "length (m_adjacency_26021 g) = length (m_graph_nodes_26021 g) \<and>
         (unat i < length (m_adjacency_26021 g) \<and> unat j < length (m_adjacency_26021 g) \<longrightarrow>
            (j \<in> set (m_adjacency_26021 g ! unat i) \<longleftrightarrow> i \<in> set (m_adjacency_26021 g ! unat j))) \<and>
         (add_edge_26021 this g a b = Inr (g', e) \<and> index_26021 a = Inr ia \<and> index_26021 b = Inr ib \<longrightarrow>
            unat ia < length (m_adjacency_26021 g') \<and> unat ib < length (m_adjacency_26021 g') \<and>
            ib \<in> set (m_adjacency_26021 g' ! unat ia) \<and> ia \<in> set (m_adjacency_26021 g' ! unat ib))"
proof -
  have inv: "invariant_26021 g"
    using assms invariant_Graph_26021 by (rule run_26021_invariant)
  then have "length (m_adjacency_26021 g) = length (m_graph_nodes_26021 g)"
    by (simp add: invariant_26021_def)
  moreover have "unat i < length (m_adjacency_26021 g) \<and> unat j < length (m_adjacency_26021 g) \<longrightarrow>
            (j \<in> set (m_adjacency_26021 g ! unat i) \<longleftrightarrow> i \<in> set (m_adjacency_26021 g ! unat j))"
    using inv unfolding invariant_26021_def symmetric_26021_def by blast
  moreover have "add_edge_26021 this g a b = Inr (g', e) \<and> index_26021 a = Inr ia \<and> index_26021 b = Inr ib \<longrightarrow>
            unat ia < length (m_adjacency_26021 g') \<and> unat ib < length (m_adjacency_26021 g') \<and>
            ib \<in> set (m_adjacency_26021 g' ! unat ia) \<and> ia \<in> set (m_adjacency_26021 g' ! unat ib)"
    using add_edge_26021_both_directions [OF _ inv] by blast
  ultimately show ?thesis by blast
qed

theorem adjacency_26021_symmetric_witness:
  "length (m_adjacency_26021 path_26021) = length (m_graph_nodes_26021 path_26021) \<and>
   ((1 :: size_type) \<in> set (m_adjacency_26021 path_26021 ! unat (0 :: size_type)))
     = ((0 :: size_type) \<in> set (m_adjacency_26021 path_26021 ! unat (1 :: size_type))) \<and>
   unat (0 :: size_type) < length (m_adjacency_26021 triangle_26021) \<and>
   unat (2 :: size_type) < length (m_adjacency_26021 triangle_26021) \<and>
   (2 :: size_type) \<in> set (m_adjacency_26021 triangle_26021 ! unat (0 :: size_type)) \<and>
   (0 :: size_type) \<in> set (m_adjacency_26021 triangle_26021 ! unat (2 :: size_type))"
proof -
  have h1: "unat (0 :: size_type) < length (m_adjacency_26021 path_26021) \<and>
            unat (1 :: size_type) < length (m_adjacency_26021 path_26021)"
    by (simp add: path_26021_def)
  have h2: "add_edge_26021 1 path_26021 (Node_26021 1 0) (Node_26021 1 2)
              = Inr (triangle_26021, Edge_26021 1 0 2) \<and>
            index_26021 (Node_26021 1 0) = Inr 0 \<and> index_26021 (Node_26021 1 2) = Inr 2"
    by (simp add: path_26021_def triangle_26021_def eval_26021 eval_common)
  from adjacency_26021_symmetric [OF path_26021_built,
      where i = 0 and j = 1 and a = "Node_26021 1 0" and b = "Node_26021 1 2"
        and g' = triangle_26021 and e = "Edge_26021 1 0 2" and ia = 0 and ib = 2] h1 h2
  show ?thesis by blast
qed

text \<open>
  C9. An index out of range should be handled in one way by \<^verbatim>\<open>node(i)\<close> and
  \<^verbatim>\<open>edge(i)\<close>, and never by a handle that is not the sentinel and refers to no element.
  Graph-20862 returns \<^verbatim>\<open>Node()\<close> from \<^verbatim>\<open>node(i)\<close> when \<^verbatim>\<open>i >= Points.size()\<close>, but
  \<^verbatim>\<open>Edge()\<close> from \<^verbatim>\<open>edge(i)\<close> only when \<^verbatim>\<open>i > Edges.size()\<close>. On the empty graph
  \<^verbatim>\<open>node(0)\<close> is the sentinel and \<^verbatim>\<open>edge(0)\<close> is the handle of an edge 0 that does not
  exist: its \<^verbatim>\<open>node1()\<close> reads outside the edge vector.
\<close>

theorem edge_20862_at_num_edges:
  "num_nodes_20862 (Graph_20862 :: unit graph_20862) = 0 \<and>
   node_20862 1 (Graph_20862 :: unit graph_20862) 0 = Node_default_20862 \<and>
   num_edges_20862 (Graph_20862 :: unit graph_20862) = 0 \<and>
   edge_20862 1 (Graph_20862 :: unit graph_20862) 0 = Edge_20862 0 (Some 1) \<and>
   Edge_20862 0 (Some 1) \<noteq> Edge_default_20862 \<and>
   node1_20862 [1 \<mapsto> (Graph_20862 :: unit graph_20862)] (Edge_20862 0 (Some 1)) = Inl Out_of_range \<and>
   edge_20862 1 (Graph_20862 :: unit graph_20862) 1 = Edge_default_20862"
  by (simp add: eval_20862 eval_common)

text \<open>
  C10. In Graph-26021, for valid nodes \<open>a\<close> and \<open>b\<close> of the graph, the Edge that
  \<^verbatim>\<open>add_edge(a, b)\<close> returns satisfies \<^verbatim>\<open>node1() == a\<close> and \<^verbatim>\<open>node2() == b\<close>, whether
  the edge is new or was there. The call does return when there is one adjacency entry
  per node and the entry of \<open>a\<close> has fewer than \<open>2 ^ 32\<close> elements, which the
  \<^verbatim>\<open>unsigned\<close> counter of the search loop can pass.
\<close>

theorem add_edge_26021_endpoints:
  assumes "a = Node_26021 this ia" and "b = Node_26021 this ib"
    and "ia < size_26021 g" and "ib < size_26021 g"
  shows "(add_edge_26021 this g a b = Inr (g', e) \<longrightarrow>
            node_eqE_26021 (h(this \<mapsto> g')) (node1_26021 e) (Inr a) = Inr True \<and>
            node_eqE_26021 (h(this \<mapsto> g')) (node2_26021 e) (Inr b) = Inr True) \<and>
         (length (m_adjacency_26021 g) = length (m_graph_nodes_26021 g) \<and>
          length (m_adjacency_26021 g ! unat ia) < 2 ^ 32 \<longrightarrow>
            (\<exists>g' e. add_edge_26021 this g a b = Inr (g', e)))"
proof (intro conjI impI)
  assume r: "add_edge_26021 this g a b = Inr (g', e)"
  from add_edge_26021_Inr [OF r] assms(1,2) have e: "e = Edge_26021 this ia ib" by auto
  have "m_graph_nodes_26021 g' = m_graph_nodes_26021 g"
    using add_edge_26021_nodes [OF r] by simp
  then have sz: "size_26021 g' = size_26021 g" by (simp add: size_26021_def)
  show "node_eqE_26021 (h(this \<mapsto> g')) (node1_26021 e) (Inr a) = Inr True"
    using assms(3) sz by (simp add: e assms(1) node_eqE_26021_def node1_26021_def node_eq_26021_valid)
  show "node_eqE_26021 (h(this \<mapsto> g')) (node2_26021 e) (Inr b) = Inr True"
    using assms(4) sz by (simp add: e assms(2) node_eqE_26021_def node2_26021_def node_eq_26021_valid)
next
  assume "length (m_adjacency_26021 g) = length (m_graph_nodes_26021 g) \<and>
          length (m_adjacency_26021 g ! unat ia) < 2 ^ 32"
  then show "\<exists>g' e. add_edge_26021 this g a b = Inr (g', e)"
    unfolding assms(1,2) using add_edge_26021_returns [OF assms(3,4)] by blast
qed

theorem add_edge_26021_endpoints_witness:
  "node_eqE_26021 [1 \<mapsto> triangle_26021] (node1_26021 (Edge_26021 1 0 2)) (Inr (Node_26021 1 0))
     = Inr True \<and>
   node_eqE_26021 [1 \<mapsto> triangle_26021] (node2_26021 (Edge_26021 1 0 2)) (Inr (Node_26021 1 2))
     = Inr True \<and>
   (\<exists>g' e. add_edge_26021 1 path_26021 (Node_26021 1 0) (Node_26021 1 2) = Inr (g', e)) \<and>
   node_eqE_26021 [1 \<mapsto> path_26021] (node1_26021 (Edge_26021 1 0 1)) (Inr (Node_26021 1 0))
     = Inr True \<and>
   node_eqE_26021 [1 \<mapsto> path_26021] (node2_26021 (Edge_26021 1 0 1)) (Inr (Node_26021 1 1))
     = Inr True"
proof -
  have v: "(0 :: size_type) < size_26021 path_26021" "(1 :: size_type) < size_26021 path_26021"
    "(2 :: size_type) < size_26021 path_26021"
    by (simp_all add: path_26021_def three_nodes_26021_def size_26021_def)
  have new: "add_edge_26021 1 path_26021 (Node_26021 1 0) (Node_26021 1 2)
               = Inr (triangle_26021, Edge_26021 1 0 2)"
    by (simp add: path_26021_def triangle_26021_def eval_26021 eval_common)
  have old: "add_edge_26021 1 path_26021 (Node_26021 1 0) (Node_26021 1 1)
               = Inr (path_26021, Edge_26021 1 0 1)"
    by (simp add: path_26021_def eval_26021 eval_common)
  have len: "length (m_adjacency_26021 path_26021) = length (m_graph_nodes_26021 path_26021) \<and>
             length (m_adjacency_26021 path_26021 ! unat (0 :: size_type)) < 2 ^ 32"
    by (simp add: path_26021_def three_nodes_26021_def)
  note t1 = add_edge_26021_endpoints [OF refl refl v(1) v(3),
      where h = Map.empty and g' = triangle_26021 and e = "Edge_26021 1 0 2"]
  note t2 = add_edge_26021_endpoints [OF refl refl v(1) v(2),
      where h = Map.empty and g' = path_26021 and e = "Edge_26021 1 0 1"]
  from t1 t2 new old len show ?thesis by blast
qed

subsection \<open>Further properties of the implementations\<close>

text \<open>The scenario of the specification: three nodes, \<^verbatim>\<open>add_edge(n0,n1)\<close>,
  \<^verbatim>\<open>add_edge(n1,n0)\<close>, \<^verbatim>\<open>add_edge(n1,n2)\<close>. Node 0 has a neighbour, and the enumeration
  yields the two edges, each once.\<close>

lemma path_26021_edges:
  "num_edges_26021 path_26021 = Inr 2"
  "edge_range_26021 [1 \<mapsto> path_26021] (edge_begin_26021 1 path_26021) (edge_end_26021 1 path_26021)
     = Inr [Edge_26021 1 0 1, Edge_26021 1 1 2]"
  by (simp_all add: path_26021_def three_nodes_26021_def eval_26021 eval_common)

text \<open>On valid handles the Edge equality of Graph-26021 is the equality of the graph and
  of the unordered pair; a comparison across two graphs never answers true (it answers
  false, or fails the assertion of \<^verbatim>\<open>has_node\<close> when an index is out of the bounds of the
  left graph).\<close>

lemma edge_eq_26021_valid:
  assumes "h p = Some g" and "a < size_26021 g" and "b < size_26021 g"
    and "h q = Some g2" and "c < size_26021 g2" and "d < size_26021 g2"
  shows "edge_eq_26021 h (Edge_26021 p a b) (Edge_26021 q c d) = Inr True
           \<longleftrightarrow> p = q \<and> ((a = c \<and> b = d) \<or> (a = d \<and> b = c))"
proof (cases "p = q")
  case True
  with assms have "g2 = g" by simp
  with assms True show ?thesis
    by (auto simp: edge_eq_26021_def node_eqE_26021_def node1_26021_def node2_26021_def
        node_eq_26021_constructed)
next
  case False
  have n: "node_eq_26021 h (Node_26021 p i) (Node_26021 q j) \<noteq> Inr True" for i j
    using False assms(1) by (simp add: node_eq_26021_constructed)
  have a1: "andE l r \<noteq> Inr True" if "l \<noteq> Inr True" for l r :: "error + bool"
    using that by (cases l) (auto simp: andE_def)
  have o1: "orE l r \<noteq> Inr True" if "l \<noteq> Inr True" "r \<noteq> Inr True" for l r :: "error + bool"
    using that by (cases l) (auto simp: orE_def)
  have "edge_eq_26021 h (Edge_26021 p a b) (Edge_26021 q c d) \<noteq> Inr True"
    unfolding edge_eq_26021_def node_eqE_26021_def node1_26021_def node2_26021_def
    by (intro o1 a1) (simp_all add: n)
  with False show ?thesis by simp
qed

text \<open>In a reached state of Graph-26021, with valid nodes \<open>a\<close> and \<open>b\<close>, a call
  \<^verbatim>\<open>add_edge(a, b)\<close> that returned is followed by calls \<^verbatim>\<open>add_edge(a, b)\<close> and
  \<^verbatim>\<open>add_edge(b, a)\<close> that change nothing (so \<^verbatim>\<open>num_edges()\<close> is the same) and return
  edges equal to the first.\<close>

lemma add_edge_26021_again:
  assumes "run_26021 this cs Graph_26021 = Inr g"
    and "a = Node_26021 this ia" and "b = Node_26021 this ib"
    and "ia < size_26021 g" and "ib < size_26021 g"
    and "add_edge_26021 this g a b = Inr (g1, e1)"
    and "length (m_adjacency_26021 g1 ! unat ia) < 2 ^ 32"
    and "length (m_adjacency_26021 g1 ! unat ib) < 2 ^ 32"
  shows "add_edge_26021 this g1 a b = Inr (g1, e1)"
    and "add_edge_26021 this g1 b a = Inr (g1, Edge_26021 this ib ia)"
    and "edge_eq_26021 (h(this \<mapsto> g1)) e1 e1 = Inr True"
    and "edge_eq_26021 (h(this \<mapsto> g1)) (Edge_26021 this ib ia) e1 = Inr True"
proof -
  have inv: "invariant_26021 g"
    using assms(1) invariant_Graph_26021 by (rule run_26021_invariant)
  from add_edge_26021_Inr [OF assms(6)] assms(2,3) have e1: "e1 = Edge_26021 this ia ib" by auto
  have d: "unat ia < length (m_adjacency_26021 g1)" "unat ib < length (m_adjacency_26021 g1)"
    "ib \<in> set (m_adjacency_26021 g1 ! unat ia)" "ia \<in> set (m_adjacency_26021 g1 ! unat ib)"
    using add_edge_26021_both_directions [OF assms(6) inv, of ia ib] assms(2,3)
    by (simp_all add: index_26021_def)
  have s1: "search_26021 g1 a b = Inr True"
    using d(1,3) find_loop_26021_complete [OF assms(7), of ib]
    by (simp add: assms(2,3) search_26021_def index_26021_def subscript_def)
  have s2: "search_26021 g1 b a = Inr True"
    using d(2,4) find_loop_26021_complete [OF assms(8), of ia]
    by (simp add: assms(2,3) search_26021_def index_26021_def subscript_def)
  show "add_edge_26021 this g1 a b = Inr (g1, e1)"
    using s1 by (simp add: add_edge_26021_def e1 assms(2,3) m_graph_ptr_26021_def index_26021_def)
  show "add_edge_26021 this g1 b a = Inr (g1, Edge_26021 this ib ia)"
    using s2 by (simp add: add_edge_26021_def assms(2,3) m_graph_ptr_26021_def index_26021_def)
  have "m_graph_nodes_26021 g1 = m_graph_nodes_26021 g"
    using add_edge_26021_nodes [OF assms(6)] by simp
  then have sz: "ia < size_26021 g1" "ib < size_26021 g1"
    using assms(4,5) by (simp_all add: size_26021_def)
  have hh: "(h(this \<mapsto> g1)) this = Some g1" by simp
  show "edge_eq_26021 (h(this \<mapsto> g1)) e1 e1 = Inr True"
    unfolding e1 using edge_eq_26021_valid [of "h(this \<mapsto> g1)" this g1 ia ib this g1 ia ib] sz by simp
  show "edge_eq_26021 (h(this \<mapsto> g1)) (Edge_26021 this ib ia) e1 = Inr True"
    unfolding e1 using edge_eq_26021_valid [of "h(this \<mapsto> g1)" this g1 ib ia this g1 ia ib] sz by simp
qed

text \<open>What \<^verbatim>\<open>has_node\<close> answers for a handle that a graph produced. Graph-26021: the
  test of the owner within the bounds, a failed assertion out of them. Graph-1703: the
  test of the owner, whatever the identifier. Graph-20862: the test of the owner within
  the bounds, false out of them.\<close>

lemma has_node_of_produced_handle:
  "i < num_nodes_26021 g \<Longrightarrow> has_node_26021 this g (Node_26021 p i) = Inr (p = this)"
  "\<not> i < num_nodes_26021 g \<Longrightarrow> has_node_26021 this g (Node_26021 p i) = Inl Assertion_failed"
  "has_node_1703 this ga (Node_1703 p u) = Inr (p = this)"
  "unat j < length (Points_20862 gb) \<Longrightarrow> has_node_20862 this gb (Node_20862 j gp) = (gp = Some this)"
  "unat j \<ge> length (Points_20862 gb) \<Longrightarrow> has_node_20862 this gb (Node_20862 j (Some q)) = False"
  by (auto simp: num_nodes_26021_def has_node_26021_def has_node_1703_def g_1703_def
      has_node_20862_def node_20862_def node_eq_20862_def Node_default_20862_def Let_def)

text \<open>Graph-20862 accepts the default-constructed handle, which no graph produced: the
  assignment \<^verbatim>\<open>in_graph=false\<close> for an index beyond the size is overwritten.\<close>

lemma has_node_20862_default:
  "length (Points_20862 g) < 2 ^ 32 \<Longrightarrow> has_node_20862 this g Node_default_20862 = True"
  by (simp add: has_node_20862_def Node_default_20862_def node_20862_def node_eq_20862_def Let_def
      unsigned_minus_1_eq_mask mask_eq_exp_minus_1)

text \<open>What the implementations do with an index out of range: Graph-26021 asserts,
  Graph-1703 returns the default-constructed handle from both \<^verbatim>\<open>node\<close> and \<^verbatim>\<open>edge\<close>,
  Graph-20862 from \<^verbatim>\<open>node\<close>, and from \<^verbatim>\<open>edge\<close> beyond \<^verbatim>\<open>Edges.size()\<close> only.\<close>

lemma out_of_range_26021:
  "\<not> i < size_26021 g \<Longrightarrow> node_26021 this g i = Inl Assertion_failed"
  "h this = Some g \<Longrightarrow> num_edges_26021 g = Inr n \<Longrightarrow> \<not> i < n \<Longrightarrow>
     edge_26021 h this i = Inl Assertion_failed"
  by (simp_all add: node_26021_def edge_26021_def)

lemma out_of_range_1703:
  "i \<ge> size_1703 g \<Longrightarrow> node_1703 this g i = Node_default_1703"
  "h this = Some g \<Longrightarrow> unat i \<ge> length (edges_1703 g) \<Longrightarrow> edge_1703 h this i = Inr Edge_default_1703"
  by (simp_all add: node_1703_def edge_1703_def)

lemma out_of_range_20862:
  "unat i \<ge> length (Points_20862 g) \<Longrightarrow> node_20862 this g i = Node_default_20862"
  "unat i > length (Edges_20862 g) \<Longrightarrow> edge_20862 this g i = Edge_default_20862"
  "unat i = length (Edges_20862 g) \<Longrightarrow> edge_20862 this g i = Edge_20862 i (Some this)"
  by (simp_all add: node_20862_def edge_20862_def)

end
